theory Spec2Isabelle
  imports Complex_Main
begin

section \<open>Shared data model\<close>

text \<open>
  Python exceptions are values. A \<open>ValueError\<close> carries the message template of the
  \<^verbatim>\<open>raise\<close> statement it models (the interpolated parts of an f-string are kept as
  written, in braces), so that two different \<^verbatim>\<open>raise ValueError\<close> sites stay apart.
\<close>

datatype error =
    ValueError string
  | ZeroDivisionError
  | IndexError
  | KeyError string
  | TypeError string
  | RuntimeError string

section \<open>CLVP: \<open>ClvpConditioningEncoder.compute_groupnorm_groups\<close>\<close>

text \<open>
  \<^verbatim>\<open>int(groups / 2)\<close>: true division followed by truncation towards zero. (The float
  quotient is exact for every \<open>groups\<close> below \<open>2 ^ 53\<close> in absolute value; the only
  caller passes the default \<open>32\<close>.)
\<close>

definition int_half :: "int \<Rightarrow> int" where
  "int_half groups = (if 0 \<le> groups then groups div 2 else - ((- groups) div 2))"

text \<open>
  \<^verbatim>\<open>while channels % groups != 0: groups = int(groups / 2)\<close>.
  Python's \<open>%\<close> on integers takes the sign of the divisor, as \<open>mod\<close> on \<open>int\<close> does,
  and raises \<open>ZeroDivisionError\<close> on a zero divisor.
\<close>

function halving_loop :: "int \<Rightarrow> int \<Rightarrow> error + int" where
  "halving_loop channels groups =
     (if groups = 0 then Inl ZeroDivisionError
      else if channels mod groups \<noteq> 0 then halving_loop channels (int_half groups)
      else Inr groups)"
  by pat_completeness auto
termination
  by (relation "measure (\<lambda>(channels, groups). nat \<bar>groups\<bar>)")
     (auto simp: int_half_def)

declare halving_loop.simps [simp del]

definition groupnorm_message :: string where
  "groupnorm_message =
     ''Number of groups for the GroupNorm must be greater than 2, but it is {groups}.'' @
     ''Please consider using a different `hidden_size`''"

definition compute_groupnorm_groups :: "int \<Rightarrow> int \<Rightarrow> error + int" where
  "compute_groupnorm_groups channels groups =
     (let groups = (if channels \<le> 16 then 8 else if channels \<le> 64 then 16 else groups)
      in case halving_loop channels groups of
           Inl e \<Rightarrow> Inl e
         | Inr groups \<Rightarrow>
             if groups \<le> 2 then Inl (ValueError groupnorm_message) else Inr groups)"

text \<open>
  A tensor is modelled by what the code reads of it. Where a method only reads the shape of
  an argument, the tensor is its shape (a tuple of dimensions) carrying its contents as an
  uninterpreted payload; where values are computed, tensors are nested lists of reals
  (floating-point rounding is not modelled, and no theorem below rests on an arithmetic
  law that rounding would break).
\<close>

record 'd tensor =
  shape :: "nat list"
  payload :: 'd

text \<open>
  \<^verbatim>\<open>a, b = t\<close> for a tuple \<open>t\<close>: Python raises \<open>ValueError\<close> unless \<open>t\<close> has exactly two
  components.
\<close>

definition not_enough_message :: string where
  "not_enough_message = ''not enough values to unpack (expected 2, got {len(t)})''"

definition too_many_message :: string where
  "too_many_message = ''too many values to unpack (expected 2)''"

definition unpack2 :: "nat list \<Rightarrow> error + nat \<times> nat" where
  "unpack2 t =
     (case t of
        [a, b] \<Rightarrow> Inr (a, b)
      | _ \<Rightarrow> if length t < 2 then Inl (ValueError not_enough_message)
             else Inl (ValueError too_many_message))"

section \<open>CLVP: the \<open>input_ids\<close> / \<open>inputs_embeds\<close> check of the forward methods\<close>

definition both_message :: string where
  "both_message = ''You cannot specify both input_ids and inputs_embeds at the same time''"

definition neither_message :: string where
  "neither_message = ''You have to specify either input_ids or inputs_embeds''"

text \<open>
  \<open>ClvpConditioningEncoder.forward\<close>, the statement that opens the method: it yields
  \<open>(batch_size, seq_length)\<close>. \<^verbatim>\<open>inputs_embeds.shape[:-1]\<close> is \<open>butlast\<close>.
\<close>

definition ClvpConditioningEncoder_forward_check ::
  "'a tensor option \<Rightarrow> 'b tensor option \<Rightarrow> error + nat \<times> nat" where
  "ClvpConditioningEncoder_forward_check input_ids inputs_embeds =
     (case (input_ids, inputs_embeds) of
        (Some ids, Some embeds) \<Rightarrow> Inl (ValueError both_message)
      | (Some ids, None) \<Rightarrow> unpack2 (shape ids)
      | (None, Some embeds) \<Rightarrow> unpack2 (butlast (shape embeds))
      | (None, None) \<Rightarrow> Inl (ValueError neither_message))"

text \<open>
  \<open>ClvpEncoder.forward\<close> and \<open>ClvpDecoder.forward\<close>: the same statement, yielding
  \<open>input_shape\<close>. With \<open>input_ids\<close> given, \<^verbatim>\<open>input_shape[-1]\<close> is read for the
  \<open>view\<close>, which raises \<open>IndexError\<close> on an empty shape tuple. The call of
  \<open>warn_if_padding_and_no_attention_mask\<close> (a logging helper of the base class) is
  left out.
\<close>

definition ClvpEncoder_forward_check ::
  "'a tensor option \<Rightarrow> 'b tensor option \<Rightarrow> error + nat list" where
  "ClvpEncoder_forward_check input_ids inputs_embeds =
     (case (input_ids, inputs_embeds) of
        (Some ids, Some embeds) \<Rightarrow> Inl (ValueError both_message)
      | (Some ids, None) \<Rightarrow>
          (let input_shape = shape ids
           in if input_shape = [] then Inl IndexError else Inr input_shape)
      | (None, Some embeds) \<Rightarrow> Inr (butlast (shape embeds))
      | (None, None) \<Rightarrow> Inl (ValueError neither_message))"

definition ClvpDecoder_forward_check ::
  "'a tensor option \<Rightarrow> 'b tensor option \<Rightarrow> error + nat list" where
  "ClvpDecoder_forward_check input_ids inputs_embeds =
     (case (input_ids, inputs_embeds) of
        (Some ids, Some embeds) \<Rightarrow> Inl (ValueError both_message)
      | (Some ids, None) \<Rightarrow>
          (let input_shape = shape ids
           in if input_shape = [] then Inl IndexError else Inr input_shape)
      | (None, Some embeds) \<Rightarrow> Inr (butlast (shape embeds))
      | (None, None) \<Rightarrow> Inl (ValueError neither_message))"

text \<open>The two errors of the check, as a predicate on a method's outcome.\<close>

definition check_error :: "error + 'r \<Rightarrow> bool" where
  "check_error r \<longleftrightarrow> r = Inl (ValueError both_message) \<or> r = Inl (ValueError neither_message)"

section \<open>CLVP: the length check of \<open>ClvpModelForConditionalGeneration.generate\<close>\<close>

definition max_length_message :: string where
  "max_length_message =
     ''Maximum sequence length reached! Found input_ids of length {sequence_length}.'' @
     ''Please make sure that the maximum length of input_ids is {self.config.decoder_config.max_text_tokens - 3}''"

text \<open>
  The stages \<open>generate\<close> runs after its first statement, in order. Each is code of other
  classes or of the generation utilities; the whole remainder of the method is the
  parameter \<open>rest\<close>, which reports the stages it ran together with its outcome.
\<close>

datatype stage = PadTokens | Conditioning | Decoding | SpeechEncoding | TextEncoding

text \<open>
  \<^verbatim>\<open>sequence_length = input_ids.shape[-1]\<close> raises \<open>IndexError\<close> on an empty shape;
  \<open>max_text_tokens\<close> is a Python integer of the configuration.
\<close>

definition generate ::
  "int \<Rightarrow> 'a tensor \<Rightarrow> ('a tensor \<Rightarrow> stage list \<times> (error + 'out)) \<Rightarrow> stage list \<times> (error + 'out)"
  where
  "generate max_text_tokens input_ids rest =
     (if shape input_ids = [] then ([], Inl IndexError)
      else
        let sequence_length = int (last (shape input_ids))
        in if sequence_length > max_text_tokens - 3
           then ([], Inl (ValueError max_length_message))
           else rest input_ids)"

section \<open>Llava: \<open>LlavaConfig.__init__\<close>\<close>

datatype pyval = PyNone | PyBool bool | PyInt int | PyStr string

text \<open>A keyword dictionary.\<close>

type_synonym pydict = "string \<rightharpoonup> pyval"

text \<open>
  The \<open>vision_config\<close> and \<open>text_config\<close> arguments: \<open>None\<close>, a dictionary, or a
  configuration object (of a class outside this file, \<open>'c\<close>).
\<close>

datatype 'c config_arg = ArgNone | ArgDict pydict | ArgConfig 'c

text \<open>
  The attributes of a \<open>LlavaConfig\<close> object. Python attributes are untyped, so those
  that a keyword can overwrite hold any value. \<open>vocab_size_private\<close> is \<open>_vocab_size\<close>;
  \<open>attributes\<close> holds every attribute the class does not name itself.
\<close>

record 'c LlavaConfig =
  ignore_index :: pyval
  image_token_index :: pyval
  projector_hidden_act :: pyval
  vision_feature_select_strategy :: pyval
  vision_feature_layer :: pyval
  vision_config :: 'c
  text_config :: 'c
  vocab_size_private :: pyval
  attributes :: pydict

text \<open>
  The named parameters of \<open>__init__\<close>. A call that also passes one of them in the
  keyword dictionary is rejected by Python before the body runs, so \<open>kwargs\<close> never
  holds one of these keys.
\<close>

definition named_parameters :: "string list" where
  "named_parameters =
     [''vision_config'', ''text_config'', ''ignore_index'', ''image_token_index'',
      ''projector_hidden_act'', ''vision_feature_select_strategy'', ''vision_feature_layer'']"

definition multiple_values_message :: string where
  "multiple_values_message = ''__init__() got multiple values for keyword argument''"

definition strategy_message :: string where
  "strategy_message =
     ''vision_feature_select_strategy should be one of 'default', 'full'.'' @
     ''Got: {vision_feature_select_strategy}''"

text \<open>
  \<^verbatim>\<open>CONFIG_MAPPING[model_type](**kwargs)\<close>: \<open>CONFIG_MAPPING\<close> (of the \<open>auto\<close> package) is a
  parameter, a dictionary from model types to constructors; a missing key raises
  \<open>KeyError\<close>. A \<open>model_type\<close> entry that is not a string is no key of it.
\<close>

definition from_mapping ::
  "(string \<rightharpoonup> (pydict \<Rightarrow> error + 'c)) \<Rightarrow> pyval \<Rightarrow> pydict \<Rightarrow> error + 'c" where
  "from_mapping CONFIG_MAPPING model_type kwargs =
     (case model_type of
        PyStr name \<Rightarrow>
          (case CONFIG_MAPPING name of
             None \<Rightarrow> Inl (KeyError name)
           | Some constructor \<Rightarrow> constructor kwargs)
      | _ \<Rightarrow> Inl (KeyError ''model_type''))"

definition default_vision_kwargs :: pydict where
  "default_vision_kwargs =
     [''intermediate_size'' \<mapsto> PyInt 4096, ''hidden_size'' \<mapsto> PyInt 1024,
      ''patch_size'' \<mapsto> PyInt 14, ''image_size'' \<mapsto> PyInt 336,
      ''num_hidden_layers'' \<mapsto> PyInt 24, ''num_attention_heads'' \<mapsto> PyInt 16,
      ''vocab_size'' \<mapsto> PyInt 32000, ''projection_dim'' \<mapsto> PyInt 768]"

definition resolve_config ::
  "(string \<rightharpoonup> (pydict \<Rightarrow> error + 'c)) \<Rightarrow> string \<Rightarrow> pydict \<Rightarrow> 'c config_arg \<Rightarrow> error + 'c"
  where
  "resolve_config CONFIG_MAPPING default_type default_kwargs arg =
     (case arg of
        ArgDict d \<Rightarrow>
          (let d = d(''model_type'' \<mapsto>
                      (case d ''model_type'' of Some t \<Rightarrow> t | None \<Rightarrow> PyStr default_type))
           in from_mapping CONFIG_MAPPING (the (d ''model_type'')) d)
      | ArgNone \<Rightarrow> from_mapping CONFIG_MAPPING (PyStr default_type) default_kwargs
      | ArgConfig c \<Rightarrow> Inr c)"

text \<open>
  The constructor. \<open>kwargs\<close> is the keyword dictionary, in order. \<open>vocab_size_of\<close>
  reads \<^verbatim>\<open>text_config.vocab_size\<close>. \<open>super_init\<close> is \<open>PretrainedConfig.__init__\<close>, code
  outside these files: it runs last, on the object with every attribute of the class
  already assigned, and it may change the object or raise. The \<open>FutureWarning\<close> for a
  \<open>vocab_size\<close> keyword changes nothing and is not modelled.
\<close>

definition LlavaConfig_init ::
  "(string \<rightharpoonup> (pydict \<Rightarrow> error + 'c)) \<Rightarrow> ('c \<Rightarrow> error + pyval) \<Rightarrow>
   ('c LlavaConfig \<Rightarrow> (string \<times> pyval) list \<Rightarrow> error + 'c LlavaConfig) \<Rightarrow>
   'c config_arg \<Rightarrow> 'c config_arg \<Rightarrow> pyval \<Rightarrow> pyval \<Rightarrow> pyval \<Rightarrow> pyval \<Rightarrow> pyval \<Rightarrow>
   (string \<times> pyval) list \<Rightarrow> error + 'c LlavaConfig" where
  "LlavaConfig_init CONFIG_MAPPING vocab_size_of super_init
       vision_config_arg text_config_arg ignore_index_arg image_token_index_arg
       projector_hidden_act_arg vision_feature_select_strategy_arg vision_feature_layer_arg
       kwargs =
     (if \<exists>name \<in> set named_parameters. name \<in> set (map fst kwargs)
      then Inl (TypeError multiple_values_message)
      else if vision_feature_select_strategy_arg \<notin> set [PyStr ''default'', PyStr ''full'']
      then Inl (ValueError strategy_message)
      else
        case resolve_config CONFIG_MAPPING ''clip_vision_model'' default_vision_kwargs
               vision_config_arg of
          Inl e \<Rightarrow> Inl e
        | Inr vc \<Rightarrow>
            (case resolve_config CONFIG_MAPPING ''llama'' Map.empty text_config_arg of
               Inl e \<Rightarrow> Inl e
             | Inr tc \<Rightarrow>
                 (case vocab_size_of tc of
                    Inl e \<Rightarrow> Inl e
                  | Inr vs \<Rightarrow>
                      super_init
                        \<lparr> ignore_index = ignore_index_arg,
                          image_token_index = image_token_index_arg,
                          projector_hidden_act = projector_hidden_act_arg,
                          vision_feature_select_strategy = vision_feature_select_strategy_arg,
                          vision_feature_layer = vision_feature_layer_arg,
                          vision_config = vc,
                          text_config = tc,
                          vocab_size_private = vs,
                          attributes = Map.empty \<rparr>
                        kwargs)))"

text \<open>The \<open>vocab_size\<close> property setter: \<^verbatim>\<open>self._vocab_size = value\<close>.\<close>

definition vocab_size_setter :: "'c LlavaConfig \<Rightarrow> pyval \<Rightarrow> 'c LlavaConfig" where
  "vocab_size_setter self v = self\<lparr>vocab_size_private := v\<rparr>"

text \<open>
  \<^verbatim>\<open>setattr(self, key, value)\<close> on a \<open>LlavaConfig\<close>: \<open>vocab_size\<close> goes through the
  property setter, an attribute of the class is overwritten, any other key becomes a new
  attribute. (\<open>vision_config\<close> and \<open>text_config\<close> hold configuration objects, which a
  \<open>pyval\<close> cannot be; these two keys leave the object as it is. They are named
  parameters, so no keyword dictionary holds them.)
\<close>

definition LlavaConfig_setattr :: "'c LlavaConfig \<Rightarrow> string \<Rightarrow> pyval \<Rightarrow> 'c LlavaConfig" where
  "LlavaConfig_setattr self key v =
     (if key = ''vocab_size'' then vocab_size_setter self v
      else if key = ''_vocab_size'' then self\<lparr>vocab_size_private := v\<rparr>
      else if key = ''ignore_index'' then self\<lparr>ignore_index := v\<rparr>
      else if key = ''image_token_index'' then self\<lparr>image_token_index := v\<rparr>
      else if key = ''projector_hidden_act'' then self\<lparr>projector_hidden_act := v\<rparr>
      else if key = ''vision_feature_select_strategy''
        then self\<lparr>vision_feature_select_strategy := v\<rparr>
      else if key = ''vision_feature_layer'' then self\<lparr>vision_feature_layer := v\<rparr>
      else if key = ''vision_config'' \<or> key = ''text_config'' then self
      else self\<lparr>attributes := (attributes self)(key \<mapsto> v)\<rparr>)"

text \<open>
  A base-class constructor to run \<open>LlavaConfig_init\<close> with: it assigns every keyword as
  an attribute of the object, in order, which is how a keyword such as \<open>vocab_size\<close>
  reaches the property setter.
\<close>

definition setattr_kwargs ::
  "'c LlavaConfig \<Rightarrow> (string \<times> pyval) list \<Rightarrow> error + 'c LlavaConfig" where
  "setattr_kwargs self kwargs = Inr (fold (\<lambda>(key, v) obj. LlavaConfig_setattr obj key v) kwargs self)"

section \<open>CLVP: the attention-mask step of \<open>ClvpSelfAttention.forward\<close>\<close>

definition mask_message :: string where
  "mask_message =
     ''Attention mask should be of size {(bsz, 1, tgt_len, src_len)}, but is {attention_mask.shape}''"

text \<open>
  The statements of \<open>ClvpSelfAttention.forward\<close> from \<^verbatim>\<open>tgt_len = query_states.shape[2]\<close>
  to the softmax. The tensor operators are the runtime's and are parameters:
  \<open>matmul_qk q k\<close> is \<^verbatim>\<open>ops.matmul(q, k.swapaxes(2, 3))\<close>, \<open>add\<close> is the tensor sum and
  \<open>softmax\<close> is \<^verbatim>\<open>F.softmax(_, dim=-1)\<close>. \<open>bsz\<close> was unpacked from
  \<open>hidden_states.shape\<close> earlier in the method. Reading \<^verbatim>\<open>shape[2]\<close> of a tensor of
  rank below 3 raises \<open>IndexError\<close>.
\<close>

definition ClvpSelfAttention_forward_mask_step ::
  "('q tensor \<Rightarrow> 'q tensor \<Rightarrow> 'w tensor) \<Rightarrow> ('w tensor \<Rightarrow> 'm tensor \<Rightarrow> 'w tensor) \<Rightarrow>
   ('w tensor \<Rightarrow> 'w tensor) \<Rightarrow> nat \<Rightarrow> 'q tensor \<Rightarrow> 'q tensor \<Rightarrow> 'm tensor option \<Rightarrow>
   error + 'w tensor" where
  "ClvpSelfAttention_forward_mask_step matmul_qk add softmax bsz query_states key_states attention_mask =
     (if length (shape query_states) < 3 \<or> length (shape key_states) < 3 then Inl IndexError
      else
        let tgt_len = shape query_states ! 2;
            src_len = shape key_states ! 2;
            attn_weights = matmul_qk query_states key_states
        in case attention_mask of
             None \<Rightarrow> Inr (softmax attn_weights)
           | Some attn_mask \<Rightarrow>
               if shape attn_mask \<noteq> [bsz, 1, tgt_len, src_len]
               then Inl (ValueError mask_message)
               else Inr (softmax (add attn_weights attn_mask)))"

section \<open>CLVP: \<open>ClvpRotaryPositionalEmbedding\<close>\<close>

text \<open>
  The module's state: the buffer \<open>inv_freq\<close> (computed once by \<open>__init__\<close> from the
  configuration, here given) and the two cache attributes, both \<open>None\<close> after
  \<open>__init__\<close>. The embedding has shape \<open>(1, sequence_length, 2 * len(inv_freq))\<close>.
\<close>

record ClvpRotaryPositionalEmbedding =
  inv_freq :: "real list"
  cached_sequence_length :: "nat option"
  cached_rotary_positional_embedding :: "real list list list option"

definition ClvpRotaryPositionalEmbedding_init :: "real list \<Rightarrow> ClvpRotaryPositionalEmbedding" where
  "ClvpRotaryPositionalEmbedding_init inv_freq_buffer =
     \<lparr> inv_freq = inv_freq_buffer,
       cached_sequence_length = None,
       cached_rotary_positional_embedding = None \<rparr>"

text \<open>
  \<open>forward\<close> returns the embedding and the module as the call leaves it.
  \<^verbatim>\<open>hidden_states.shape[1]\<close> raises \<open>IndexError\<close> below rank 2 (the module is then
  untouched). \<^verbatim>\<open>einsum("i,j->ij", time_stamps, inv_freq)\<close> is the outer product;
  \<^verbatim>\<open>cat((freqs, freqs), dim=-1)\<close> doubles each row; \<^verbatim>\<open>unsqueeze(0)\<close> wraps the matrix.
\<close>

definition ClvpRotaryPositionalEmbedding_forward ::
  "ClvpRotaryPositionalEmbedding \<Rightarrow> 'a tensor \<Rightarrow>
   error + real list list list \<times> ClvpRotaryPositionalEmbedding" where
  "ClvpRotaryPositionalEmbedding_forward self hidden_states =
     (if length (shape hidden_states) < 2 then Inl IndexError
      else
        let sequence_length = shape hidden_states ! 1
        in if Some sequence_length = cached_sequence_length self
              \<and> cached_rotary_positional_embedding self \<noteq> None
           then Inr (the (cached_rotary_positional_embedding self), self)
           else
             let self = self\<lparr>cached_sequence_length := Some sequence_length\<rparr>;
                 time_stamps = map real [0..<sequence_length];
                 freqs = map (\<lambda>t. map (\<lambda>f. t * f) (inv_freq self)) time_stamps;
                 embeddings = map (\<lambda>row. row @ row) freqs;
                 self = self\<lparr>cached_rotary_positional_embedding := Some [embeddings]\<rparr>
             in Inr ([embeddings], self))"

text \<open>
  A sequence of calls on one module: each call sees the module as the previous call left
  it; a call that raises leaves it as it was.
\<close>

fun forward_calls ::
  "ClvpRotaryPositionalEmbedding \<Rightarrow> 'a tensor list \<Rightarrow> (error + real list list list) list" where
  "forward_calls self [] = []"
| "forward_calls self (hidden_states # rest) =
     (case ClvpRotaryPositionalEmbedding_forward self hidden_states of
        Inl e \<Rightarrow> Inl e # forward_calls self rest
      | Inr (embedding, self') \<Rightarrow> Inr embedding # forward_calls self' rest)"

text \<open>
  The cache-free reference the claim compares with: the embedding computed afresh from
  \<open>inv_freq\<close> for a sequence length, and a \<open>forward\<close> that has no cache.
\<close>

definition fresh_embedding :: "real list \<Rightarrow> nat \<Rightarrow> real list list list" where
  "fresh_embedding inv_freq_buffer sequence_length =
     [map (\<lambda>t. map (\<lambda>f. real t * f) inv_freq_buffer @ map (\<lambda>f. real t * f) inv_freq_buffer)
        [0..<sequence_length]]"

definition forward_without_cache :: "real list \<Rightarrow> 'a tensor \<Rightarrow> error + real list list list" where
  "forward_without_cache inv_freq_buffer hidden_states =
     (if length (shape hidden_states) < 2 then Inl IndexError
      else Inr (fresh_embedding inv_freq_buffer (shape hidden_states ! 1)))"

text \<open>The cache, when filled, holds the embedding of the cached length.\<close>

definition cache_consistent :: "ClvpRotaryPositionalEmbedding \<Rightarrow> bool" where
  "cache_consistent self \<longleftrightarrow>
     (case (cached_sequence_length self, cached_rotary_positional_embedding self) of
        (Some n, Some embedding) \<Rightarrow> embedding = fresh_embedding (inv_freq self) n
      | _ \<Rightarrow> True)"

section \<open>CLVP: rotary position embedding in \<open>ClvpSelfAttention.forward\<close>\<close>

text \<open>
  Query, key and value states are tensors of shape \<open>(batch, heads, sequence, head_dim)\<close>,
  here nested lists of reals. (A nested list does not record the inner dimensions of a
  tensor with a dimension of size zero.)
\<close>

type_synonym tensor4 = "real list list list list"

text \<open>
  The runtime's elementwise operators broadcast: along each dimension the two sizes are
  equal or one of them is 1, otherwise the operation raises. \<open>collect\<close> is the loop over
  one dimension, failing with the first error.
\<close>

fun collect :: "(error + 'a) list \<Rightarrow> error + 'a list" where
  "collect [] = Inr []"
| "collect (r # rs) =
     (case r of
        Inl e \<Rightarrow> Inl e
      | Inr x \<Rightarrow> (case collect rs of Inl e \<Rightarrow> Inl e | Inr xs \<Rightarrow> Inr (x # xs)))"

definition broadcast_message :: string where
  "broadcast_message = ''operands could not be broadcast together''"

definition broadcast ::
  "('a \<Rightarrow> 'b \<Rightarrow> error + 'c) \<Rightarrow> 'a list \<Rightarrow> 'b list \<Rightarrow> error + 'c list" where
  "broadcast f xs ys =
     (if length xs = length ys then collect (map2 f xs ys)
      else if length xs = 1 then collect (map (f (hd xs)) ys)
      else if length ys = 1 then collect (map (\<lambda>x. f x (hd ys)) xs)
      else Inl (ValueError broadcast_message))"

definition mul4 :: "tensor4 \<Rightarrow> tensor4 \<Rightarrow> error + tensor4" where
  "mul4 = broadcast (broadcast (broadcast (broadcast (\<lambda>a b. Inr (a * b)))))"

definition add4 :: "tensor4 \<Rightarrow> tensor4 \<Rightarrow> error + tensor4" where
  "add4 = broadcast (broadcast (broadcast (broadcast (\<lambda>a b. Inr (a + b)))))"

text \<open>
  \<open>rotate_half\<close>: \<^verbatim>\<open>x1 = x[..., : x.shape[-1] // 2]\<close>, \<^verbatim>\<open>x2 = x[..., x.shape[-1] // 2:]\<close>,
  \<^verbatim>\<open>cat((-x2, x1), dim=-1)\<close>, on each vector of the last dimension.
\<close>

definition rotate_half_vec :: "real list \<Rightarrow> real list" where
  "rotate_half_vec x =
     (let x1 = take (length x div 2) x;
          x2 = drop (length x div 2) x
      in map uminus x2 @ x1)"

definition rotate_half :: "tensor4 \<Rightarrow> tensor4" where
  "rotate_half x = map (map (map rotate_half_vec)) x"

text \<open>
  \<^verbatim>\<open>cos[position_ids]\<close> for a table \<open>cos\<close> of shape \<open>(length, dim)\<close> and integer
  \<open>position_ids\<close> of shape \<open>(batch, sequence)\<close>; an index past the table raises
  \<open>IndexError\<close>. \<^verbatim>\<open>unsqueeze(1)\<close> inserts the heads dimension.
\<close>

definition gather_rows :: "real list list \<Rightarrow> nat list list \<Rightarrow> error + real list list list" where
  "gather_rows table position_ids =
     collect (map (\<lambda>row. collect (map (\<lambda>p. if p < length table then Inr (table ! p)
                                              else Inl IndexError) row)) position_ids)"

definition unsqueeze1 :: "'a list list \<Rightarrow> 'a list list list" where
  "unsqueeze1 t = map (\<lambda>x. [x]) t"

text \<open>\<^verbatim>\<open>(x * cos) + (rotate_half(x) * sin)\<close>.\<close>

definition rotary_embed :: "tensor4 \<Rightarrow> tensor4 \<Rightarrow> tensor4 \<Rightarrow> error + tensor4" where
  "rotary_embed x cos_t sin_t =
     (case mul4 x cos_t of
        Inl e \<Rightarrow> Inl e
      | Inr x_cos \<Rightarrow>
          (case mul4 (rotate_half x) sin_t of
             Inl e \<Rightarrow> Inl e
           | Inr x_sin \<Rightarrow> add4 x_cos x_sin))"

definition apply_rotary_pos_emb ::
  "tensor4 \<Rightarrow> tensor4 \<Rightarrow> tensor4 \<Rightarrow> real list list \<Rightarrow> real list list \<Rightarrow> nat list list \<Rightarrow>
   error + tensor4 \<times> tensor4 \<times> tensor4" where
  "apply_rotary_pos_emb q k v cos_table sin_table position_ids =
     (case gather_rows cos_table position_ids of
        Inl e \<Rightarrow> Inl e
      | Inr cos_rows \<Rightarrow>
     (case gather_rows sin_table position_ids of
        Inl e \<Rightarrow> Inl e
      | Inr sin_rows \<Rightarrow>
     (let cos_t = unsqueeze1 cos_rows; sin_t = unsqueeze1 sin_rows
      in case rotary_embed q cos_t sin_t of
           Inl e \<Rightarrow> Inl e
         | Inr q_embed \<Rightarrow>
        (case rotary_embed k cos_t sin_t of
           Inl e \<Rightarrow> Inl e
         | Inr k_embed \<Rightarrow>
        (case rotary_embed v cos_t sin_t of
           Inl e \<Rightarrow> Inl e
         | Inr v_embed \<Rightarrow> Inr (q_embed, k_embed, v_embed))))))"


text \<open>
  The rotary part of \<open>ClvpSelfAttention.forward\<close>: the check on \<open>position_ids\<close> that
  opens the method, and the block \<^verbatim>\<open>if rotary_pos_emb is not None:\<close>, run on the query,
  key and value states as the projections left them. \<open>rotary_pos_emb\<close> is what
  \<open>ClvpRotaryPositionalEmbedding.forward\<close> returns, of shape \<open>(1, length, dim)\<close>; the
  model takes the \<open>length \<times> dim\<close> table that \<^verbatim>\<open>squeeze(0)\<close> leaves. The elementwise
  \<^verbatim>\<open>.cos()\<close> and \<^verbatim>\<open>.sin()\<close> of the runtime are the parameters \<open>cos_fn\<close> and \<open>sin_fn\<close>.
  \<^verbatim>\<open>cat(_, dim=-1)\<close> raises unless the other dimensions agree.
\<close>

definition position_ids_message :: string where
  "position_ids_message = ''`position_ids` must be provided when `rotary_pos_emb` is not None.''"

definition cat_message :: string where
  "cat_message = ''Sizes of tensors must match except in the concatenated dimension''"

definition zip_exact ::
  "('a \<Rightarrow> 'b \<Rightarrow> error + 'c) \<Rightarrow> 'a list \<Rightarrow> 'b list \<Rightarrow> error + 'c list" where
  "zip_exact f xs ys =
     (if length xs = length ys then collect (map2 f xs ys) else Inl (ValueError cat_message))"

definition cat_last :: "tensor4 \<Rightarrow> tensor4 \<Rightarrow> error + tensor4" where
  "cat_last = zip_exact (zip_exact (zip_exact (\<lambda>a b. Inr (a @ b))))"

definition row_length :: "'a list list \<Rightarrow> nat" where
  "row_length table = (case table of [] \<Rightarrow> 0 | row # _ \<Rightarrow> length row)"

definition slice_to :: "nat \<Rightarrow> tensor4 \<Rightarrow> tensor4" where
  "slice_to n x = map (map (map (take n))) x"

definition slice_from :: "nat \<Rightarrow> tensor4 \<Rightarrow> tensor4" where
  "slice_from n x = map (map (map (drop n))) x"

definition ClvpSelfAttention_forward_rotary_step ::
  "(real \<Rightarrow> real) \<Rightarrow> (real \<Rightarrow> real) \<Rightarrow> real list list option \<Rightarrow> nat list list option \<Rightarrow> tensor4 \<Rightarrow> tensor4 \<Rightarrow> tensor4 \<Rightarrow>
   error + tensor4 \<times> tensor4 \<times> tensor4" where
  "ClvpSelfAttention_forward_rotary_step cos_fn sin_fn rotary_pos_emb position_ids query_states key_states value_states =
     (if rotary_pos_emb \<noteq> None \<and> position_ids = None
      then Inl (ValueError position_ids_message)
      else
        case rotary_pos_emb of
          None \<Rightarrow> Inr (query_states, key_states, value_states)
        | Some table \<Rightarrow>
            (let rotary_emb_dim = row_length table;
                 query_rot = slice_to rotary_emb_dim query_states;
                 query_pass = slice_from rotary_emb_dim query_states;
                 key_rot = slice_to rotary_emb_dim key_states;
                 key_pass = slice_from rotary_emb_dim key_states;
                 value_rot = slice_to rotary_emb_dim value_states;
                 value_pass = slice_from rotary_emb_dim value_states;
                 cos_table = map (map cos_fn) table;
                 sin_table = map (map sin_fn) table
             in case apply_rotary_pos_emb query_rot key_rot value_rot cos_table sin_table
                       (the position_ids) of
                  Inl e \<Rightarrow> Inl e
                | Inr (query_rot, key_rot, value_rot) \<Rightarrow>
               (case cat_last query_rot query_pass of
                  Inl e \<Rightarrow> Inl e
                | Inr query_states \<Rightarrow>
               (case cat_last key_rot key_pass of
                  Inl e \<Rightarrow> Inl e
                | Inr key_states \<Rightarrow>
               (case cat_last value_rot value_pass of
                  Inl e \<Rightarrow> Inl e
                | Inr value_states \<Rightarrow> Inr (query_states, key_states, value_states))))))"

text \<open>
  What the rotary step is stated to compute, per token: the first \<open>rotary_emb_dim\<close>
  components \<open>x\<close> of a vector become \<open>x * cos + rotate_half(x) * sin\<close> for the angles of the
  token's position, the remaining components are kept. \<open>position_row\<close> is the row of
  \<open>position_ids\<close> for a batch item (a single row serves every item).
\<close>

definition rotated_vec ::
  "(real \<Rightarrow> real) \<Rightarrow> (real \<Rightarrow> real) \<Rightarrow> real list \<Rightarrow> real list \<Rightarrow> real list" where
  "rotated_vec cos_fn sin_fn angles x =
     (let x_rot = take (length angles) x
      in map2 (+) (map2 (*) x_rot (map cos_fn angles))
                  (map2 (*) (rotate_half_vec x_rot) (map sin_fn angles))
         @ drop (length angles) x)"

definition position_row :: "nat list list \<Rightarrow> nat \<Rightarrow> nat list" where
  "position_row position_ids b = position_ids ! (if length position_ids = 1 then 0 else b)"

definition rotated_states ::
  "(real \<Rightarrow> real) \<Rightarrow> (real \<Rightarrow> real) \<Rightarrow> real list list \<Rightarrow> nat list list \<Rightarrow> tensor4 \<Rightarrow> tensor4" where
  "rotated_states cos_fn sin_fn table position_ids x =
     map (\<lambda>b. map (\<lambda>h. map (\<lambda>s. rotated_vec cos_fn sin_fn (table ! (position_row position_ids b ! s))
                                     (x ! b ! h ! s))
                          [0..<length (x ! b ! h)])
                [0..<length (x ! b)])
         [0..<length x]"

text \<open>
  Shapes under which the step needs no broadcasting beyond the batch and heads dimensions:
  \<open>position_ids\<close> has one row or one per batch item, its entries index the table, the
  table is rectangular, each sequence is as long as its row of positions and each vector
  has at least \<open>rotary_emb_dim\<close> components.
\<close>

definition rotary_compatible :: "real list list \<Rightarrow> nat list list \<Rightarrow> tensor4 \<Rightarrow> bool" where
  "rotary_compatible table position_ids x \<longleftrightarrow>
     (length position_ids = 1 \<or> length position_ids = length x)
     \<and> (\<forall>row \<in> set position_ids. \<forall>p \<in> set row. p < length table)
     \<and> (\<forall>angles \<in> set table. length angles = row_length table)
     \<and> (\<forall>b < length x. \<forall>x_bh \<in> set (x ! b).
           length x_bh = length (position_row position_ids b)
           \<and> (\<forall>vec \<in> set x_bh. row_length table \<le> length vec))"

section \<open>Musicgen Melody: \<open>MusicgenMelodyFeatureExtractor\<close>\<close>

text \<open>
  The attributes \<open>__init__\<close> sets. The \<open>Spectrogram\<close> transform it also builds is a
  function of the audio library and is passed to the extraction method as the parameter
  \<open>spectrogram\<close>. \<open>chroma_filter_bank\<close> (of \<open>audio_utils\<close>) is a parameter as well,
  called with \<open>sampling_rate\<close>, \<open>num_frequency_bins\<close>, \<open>tuning\<close> and \<open>num_chroma\<close>; its
  result is a matrix with one row of weights per chroma bin.
\<close>

record MusicgenMelodyFeatureExtractor =
  feature_size :: nat
  sampling_rate :: nat
  hop_length :: nat
  chunk_length :: nat
  n_fft :: nat
  n_samples :: nat
  padding_value :: real
  return_attention_mask :: bool
  chroma_filters :: "real list list"
  stem_indices :: "nat list"

definition MusicgenMelodyFeatureExtractor_init ::
  "(nat \<Rightarrow> nat \<Rightarrow> real \<Rightarrow> nat \<Rightarrow> real list list) \<Rightarrow>
   nat \<Rightarrow> nat \<Rightarrow> nat \<Rightarrow> nat \<Rightarrow> nat \<Rightarrow> nat \<Rightarrow> real \<Rightarrow> bool \<Rightarrow> nat list \<Rightarrow>
   MusicgenMelodyFeatureExtractor" where
  "MusicgenMelodyFeatureExtractor_init chroma_filter_bank feature_size_arg sampling_rate_arg
       hop_length_arg chunk_length_arg n_fft_arg num_chroma padding_value_arg
       return_attention_mask_arg stem_indices_arg =
     \<lparr> feature_size = feature_size_arg,
       sampling_rate = sampling_rate_arg,
       hop_length = hop_length_arg,
       chunk_length = chunk_length_arg,
       n_fft = n_fft_arg,
       n_samples = chunk_length_arg * sampling_rate_arg,
       padding_value = padding_value_arg,
       return_attention_mask = return_attention_mask_arg,
       chroma_filters = chroma_filter_bank sampling_rate_arg n_fft_arg 0 num_chroma,
       stem_indices = stem_indices_arg \<rparr>"

text \<open>The extractor constructed with every argument at its default.\<close>

definition default_feature_extractor ::
  "(nat \<Rightarrow> nat \<Rightarrow> real \<Rightarrow> nat \<Rightarrow> real list list) \<Rightarrow> MusicgenMelodyFeatureExtractor" where
  "default_feature_extractor chroma_filter_bank =
     MusicgenMelodyFeatureExtractor_init chroma_filter_bank 12 32000 4096 30 16384 12 0 False [3, 2]"

text \<open>
  \<open>_ms_extract_fbank_features\<close> (named without the leading underscore), on a waveform
  batch of shape \<open>(batch, samples)\<close>. First the padding of a waveform shorter than
  \<open>n_fft\<close>, with zeros on both sides of the last dimension.
\<close>

definition pad_waveform :: "nat \<Rightarrow> real list list \<Rightarrow> real list list" where
  "pad_waveform n_fft_size waveform =
     (let wav_length = row_length waveform
      in if wav_length < n_fft_size
         then let pad = n_fft_size - wav_length;
                  rest = (if pad mod 2 = 0 then 0 else 1)
              in map (\<lambda>w. replicate (pad div 2) 0 @ w @ replicate (pad div 2 + rest) 0) waveform
         else waveform)"

text \<open>
  \<^verbatim>\<open>einsum("cf, ...ft->...ct", chroma_filters, spec)\<close> for one batch item \<open>spec\<close> of shape
  \<open>(frequency, time)\<close>: entry \<open>(c, t)\<close> is the sum over \<open>f\<close> of
  \<open>chroma_filters[c][f] * spec[f][t]\<close>; the two operands must agree on the size of \<open>f\<close>.
\<close>

definition einsum_message :: string where
  "einsum_message = ''einsum: operands do not agree on the size of a shared dimension''"

definition einsum_cf_ft :: "real list list \<Rightarrow> real list list \<Rightarrow> error + real list list" where
  "einsum_cf_ft filters spec =
     (if \<exists>weights \<in> set filters. length weights \<noteq> length spec
      then Inl (ValueError einsum_message)
      else Inr (map (\<lambda>weights. map (\<lambda>t. sum_list (map2 (\<lambda>w bins. w * bins ! t) weights spec))
                                [0..<row_length spec])
                   filters))"

text \<open>
  \<^verbatim>\<open>normalize(raw_chroma, p=inf, dim=-2, eps=1e-6)\<close> for one batch item of shape
  \<open>(chroma, time)\<close>: each entry is divided by the greatest absolute value of its time
  column, or by \<open>eps\<close> when that is smaller.
\<close>

definition normalize_inf :: "real list list \<Rightarrow> real list list" where
  "normalize_inf chroma =
     map (\<lambda>bins. map (\<lambda>t. bins ! t
                          / max (fold max (map (\<lambda>other. \<bar>other ! t\<bar>) chroma) 0) (1 / 1000000))
                   [0..<row_length chroma])
         chroma"

text \<open>\<^verbatim>\<open>swapaxes(1, 2)\<close> for one batch item: from \<open>(chroma, time)\<close> to \<open>(time, chroma)\<close>.\<close>

definition swapaxes :: "real list list \<Rightarrow> real list list" where
  "swapaxes chroma = map (\<lambda>t. map (\<lambda>bins. bins ! t) chroma) [0..<row_length chroma]"

text \<open>
  \<^verbatim>\<open>argmax(-1)\<close> on one frame: the first index of the greatest entry. (A frame is never
  empty here: a batch item with no chroma bin has no frame in this representation.)
\<close>

primrec argmax_from :: "real \<Rightarrow> nat \<Rightarrow> nat \<Rightarrow> real list \<Rightarrow> nat" where
  "argmax_from best best_index i [] = best_index"
| "argmax_from best best_index i (x # xs) =
     (if best < x then argmax_from x i (Suc i) xs else argmax_from best best_index (Suc i) xs)"

definition argmax :: "real list \<Rightarrow> nat" where
  "argmax xs = (case xs of [] \<Rightarrow> 0 | x # rest \<Rightarrow> argmax_from x 0 1 rest)"

text \<open>
  \<^verbatim>\<open>norm_chroma[:] = 0\<close> followed by \<^verbatim>\<open>scatter(norm_chroma, -1, idx, ones_like(idx))\<close>, on
  one frame.
\<close>

definition one_hot_frame :: "real list \<Rightarrow> real list" where
  "one_hot_frame frame =
     (let idx = argmax frame;
          zeros = map (\<lambda>_. 0) frame
      in zeros[idx := 1])"

text \<open>
  The method up to the \<open>swapaxes\<close>: the normalised chroma of shape
  \<open>(batch, time, chroma)\<close>; then the whole method.
\<close>

definition normalized_chroma ::
  "MusicgenMelodyFeatureExtractor \<Rightarrow> (real list list \<Rightarrow> real list list list) \<Rightarrow>
   real list list \<Rightarrow> error + real list list list" where
  "normalized_chroma self spectrogram waveform =
     (let waveform = pad_waveform (n_fft self) waveform;
          spec = spectrogram waveform
      in case collect (map (einsum_cf_ft (chroma_filters self)) spec) of
           Inl e \<Rightarrow> Inl e
         | Inr raw_chroma \<Rightarrow> Inr (map (\<lambda>chroma. swapaxes (normalize_inf chroma)) raw_chroma))"

definition ms_extract_fbank_features ::
  "MusicgenMelodyFeatureExtractor \<Rightarrow> (real list list \<Rightarrow> real list list list) \<Rightarrow>
   real list list \<Rightarrow> error + real list list list" where
  "ms_extract_fbank_features self spectrogram waveform =
     (case normalized_chroma self spectrogram waveform of
        Inl e \<Rightarrow> Inl e
      | Inr norm_chroma \<Rightarrow> Inr (map (map one_hot_frame) norm_chroma))"

section \<open>Properties of \<open>compute_groupnorm_groups\<close>\<close>

lemma int_half_pos: "0 < groups \<Longrightarrow> 0 \<le> int_half groups \<and> int_half groups < groups"
  by (simp add: int_half_def)

lemma int_half_zero_iff: "0 < groups \<Longrightarrow> int_half groups = 0 \<longleftrightarrow> groups = 1"
  by (auto simp: int_half_def)

lemma halving_loop_pos:
  "0 < groups \<Longrightarrow>
   \<exists>g. halving_loop channels groups = Inr g \<and> 0 < g \<and> g \<le> groups \<and> channels mod g = 0"
proof (induction channels groups rule: halving_loop.induct)
  case (1 channels groups)
  show ?case
  proof (cases "channels mod groups = 0")
    case True
    with "1.prems" show ?thesis
      by (simp add: halving_loop.simps [of channels groups])
  next
    case False
    then have "groups \<noteq> 1" by auto
    with "1.prems" have half: "0 < int_half groups" "int_half groups < groups"
      using int_half_pos [of groups] int_half_zero_iff [of groups] by auto
    from "1.prems" False have "groups \<noteq> 0" by simp
    from "1.IH" [OF this False half(1)] have
      "\<exists>g. halving_loop channels (int_half groups) = Inr g \<and> 0 < g
         \<and> g \<le> int_half groups \<and> channels mod g = 0" .
    then obtain g where
      g: "halving_loop channels (int_half groups) = Inr g" "0 < g" "g \<le> int_half groups"
         "channels mod g = 0"
      by (elim exE conjE)
    have "halving_loop channels groups = halving_loop channels (int_half groups)"
      using False \<open>groups \<noteq> 0\<close> by (simp add: halving_loop.simps [of channels groups])
    with g half show ?thesis by (intro exI [of _ g]) simp
  qed
qed

text \<open>
  C9. For every positive \<open>channels\<close>, \<open>compute_groupnorm_groups\<close> (called with the default
  \<open>groups = 32\<close>) terminates: the halving loop is a total function whose argument
  \<open>groups\<close> strictly decreases, and it ends on a positive divisor \<open>g\<close> of \<open>channels\<close>.
  The call then either returns that \<open>g\<close>, which is greater than 2 and divides
  \<open>channels\<close>, or raises the \<open>ValueError\<close> because the halving reached \<open>g \<le> 2\<close>.
  No other outcome (in particular no division by zero) is possible.
\<close>

theorem compute_groupnorm_groups_total:
  assumes "0 < channels"
  shows "\<exists>g. halving_loop channels
               (if channels \<le> 16 then 8 else if channels \<le> 64 then 16 else 32) = Inr g
             \<and> 0 < g \<and> channels mod g = 0
             \<and> (if 2 < g then compute_groupnorm_groups channels 32 = Inr g
                 else compute_groupnorm_groups channels 32 = Inl (ValueError groupnorm_message))"
proof -
  let ?g0 = "if channels \<le> 16 then 8 else if channels \<le> 64 then 16 else (32::int)"
  have "0 < ?g0" by simp
  from halving_loop_pos [OF this, of channels] have
    "\<exists>g. halving_loop channels ?g0 = Inr g \<and> 0 < g \<and> g \<le> ?g0 \<and> channels mod g = 0" .
  then obtain g where
    g: "halving_loop channels ?g0 = Inr g" "0 < g" "channels mod g = 0"
    by (elim exE conjE)
  have "if 2 < g then compute_groupnorm_groups channels 32 = Inr g
        else compute_groupnorm_groups channels 32 = Inl (ValueError groupnorm_message)"
    using g(1) by (simp add: compute_groupnorm_groups_def Let_def)
  with g show ?thesis by (intro exI [of _ g] conjI)
qed

theorem compute_groupnorm_groups_total_witness:
  "compute_groupnorm_groups 1024 32 = Inr 32
   \<and> compute_groupnorm_groups 6 32 = Inl (ValueError groupnorm_message)
   \<and> (\<exists>g. halving_loop 6 8 = Inr g \<and> 0 < g \<and> 6 mod g = 0)"
proof -
  have a: "compute_groupnorm_groups 1024 32 = Inr 32" by code_simp
  have b: "compute_groupnorm_groups 6 32 = Inl (ValueError groupnorm_message)" by code_simp
  have "(0::int) < 6" by simp
  from compute_groupnorm_groups_total [OF this] obtain g where
    "halving_loop 6 8 = Inr g" "0 < g" "6 mod g = 0"
    by (elim exE conjE) simp
  then have "\<exists>g. halving_loop 6 8 = Inr g \<and> 0 < g \<and> 6 mod g = 0"
    by (intro exI [of _ g] conjI)
  with a b show ?thesis by (intro conjI)
qed

section \<open>Properties of the input checks\<close>

lemma unpack2_not_check_error: "\<not> check_error (unpack2 t)"
proof -
  have "not_enough_message \<noteq> both_message" "not_enough_message \<noteq> neither_message"
    "too_many_message \<noteq> both_message" "too_many_message \<noteq> neither_message"
    by (simp_all add: not_enough_message_def too_many_message_def both_message_def
        neither_message_def)
  then show ?thesis
    by (simp add: check_error_def unpack2_def split: list.splits)
qed

text \<open>
  C1. In each of \<open>ClvpConditioningEncoder.forward\<close>, \<open>ClvpEncoder.forward\<close> and
  \<open>ClvpDecoder.forward\<close>: when \<open>input_ids\<close> and \<open>inputs_embeds\<close> are both given, the
  \<open>ValueError\<close> "You cannot specify both ..." is raised; when neither is given, the
  \<open>ValueError\<close> "You have to specify either ..." is raised; when exactly one is given,
  the check raises neither of its two errors.
\<close>

theorem forward_input_check:
  fixes input_ids :: "'a tensor option" and inputs_embeds :: "'b tensor option"
  shows
  "(input_ids \<noteq> None \<and> inputs_embeds \<noteq> None \<longrightarrow>
      ClvpConditioningEncoder_forward_check input_ids inputs_embeds = Inl (ValueError both_message)
    \<and> ClvpEncoder_forward_check input_ids inputs_embeds = Inl (ValueError both_message)
    \<and> ClvpDecoder_forward_check input_ids inputs_embeds = Inl (ValueError both_message))
   \<and> (input_ids = None \<and> inputs_embeds = None \<longrightarrow>
      ClvpConditioningEncoder_forward_check input_ids inputs_embeds = Inl (ValueError neither_message)
    \<and> ClvpEncoder_forward_check input_ids inputs_embeds = Inl (ValueError neither_message)
    \<and> ClvpDecoder_forward_check input_ids inputs_embeds = Inl (ValueError neither_message))
   \<and> ((input_ids = None) \<noteq> (inputs_embeds = None) \<longrightarrow>
      \<not> check_error (ClvpConditioningEncoder_forward_check input_ids inputs_embeds)
    \<and> \<not> check_error (ClvpEncoder_forward_check input_ids inputs_embeds)
    \<and> \<not> check_error (ClvpDecoder_forward_check input_ids inputs_embeds))"
proof (cases input_ids; cases inputs_embeds)
  fix ids embeds
  assume "input_ids = Some ids" "inputs_embeds = Some embeds"
  then show ?thesis
    by (simp add: ClvpConditioningEncoder_forward_check_def ClvpEncoder_forward_check_def
        ClvpDecoder_forward_check_def)
next
  assume "input_ids = None" "inputs_embeds = None"
  then show ?thesis
    by (simp add: ClvpConditioningEncoder_forward_check_def ClvpEncoder_forward_check_def
        ClvpDecoder_forward_check_def)
next
  fix ids
  assume "input_ids = Some ids" "inputs_embeds = None"
  then show ?thesis
    using unpack2_not_check_error [of "shape ids"]
    by (simp add: ClvpConditioningEncoder_forward_check_def ClvpEncoder_forward_check_def
        ClvpDecoder_forward_check_def check_error_def Let_def)
next
  fix embeds
  assume "input_ids = None" "inputs_embeds = Some embeds"
  then show ?thesis
    using unpack2_not_check_error [of "butlast (shape embeds)"]
    by (simp add: ClvpConditioningEncoder_forward_check_def ClvpEncoder_forward_check_def
        ClvpDecoder_forward_check_def check_error_def)
qed

theorem forward_input_check_witness:
  "ClvpEncoder_forward_check (Some \<lparr>shape = [2, 5], payload = ()\<rparr>)
       (Some \<lparr>shape = [2, 5, 8], payload = ()\<rparr>) = Inl (ValueError both_message)
   \<and> ClvpDecoder_forward_check (None :: unit tensor option) (None :: unit tensor option)
       = Inl (ValueError neither_message)
   \<and> \<not> check_error (ClvpConditioningEncoder_forward_check
          (Some \<lparr>shape = [2, 5], payload = ()\<rparr>) (None :: unit tensor option))
   \<and> ClvpConditioningEncoder_forward_check
          (Some \<lparr>shape = [2, 5], payload = ()\<rparr>) (None :: unit tensor option) = Inr (2, 5)
   \<and> ClvpEncoder_forward_check (None :: unit tensor option)
          (Some \<lparr>shape = [2, 5, 8], payload = ()\<rparr>) = Inr [2, 5]"
proof -
  have a: "ClvpEncoder_forward_check (Some \<lparr>shape = [2, 5], payload = ()\<rparr>)
       (Some \<lparr>shape = [2, 5, 8], payload = ()\<rparr>) = Inl (ValueError both_message)"
    using forward_input_check [of "Some \<lparr>shape = [2, 5], payload = ()\<rparr>"
        "Some \<lparr>shape = [2, 5, 8], payload = ()\<rparr>"] by simp
  have b: "ClvpDecoder_forward_check (None :: unit tensor option) (None :: unit tensor option)
       = Inl (ValueError neither_message)"
    using forward_input_check [of "None :: unit tensor option" "None :: unit tensor option"]
    by simp
  have c: "\<not> check_error (ClvpConditioningEncoder_forward_check
          (Some \<lparr>shape = [2, 5], payload = ()\<rparr>) (None :: unit tensor option))"
    using forward_input_check [of "Some \<lparr>shape = [2, 5], payload = ()\<rparr>"
        "None :: unit tensor option"] by simp
  have d: "ClvpConditioningEncoder_forward_check
          (Some \<lparr>shape = [2, 5], payload = ()\<rparr>) (None :: unit tensor option) = Inr (2, 5)"
    by (simp add: ClvpConditioningEncoder_forward_check_def unpack2_def)
  have e: "ClvpEncoder_forward_check (None :: unit tensor option)
          (Some \<lparr>shape = [2, 5, 8], payload = ()\<rparr>) = Inr [2, 5]"
    by (simp add: ClvpEncoder_forward_check_def)
  from a b c d e show ?thesis by (intro conjI)
qed

text \<open>
  C3. In \<open>ClvpModelForConditionalGeneration.generate\<close>, when the last dimension of
  \<open>input_ids\<close> is strictly greater than \<open>max_text_tokens - 3\<close> the \<open>ValueError\<close> is
  raised before any later stage runs (none is performed, whatever the rest of the method
  is); when it is at most that limit the check passes and the method continues with the
  rest.
\<close>

theorem generate_length_check:
  assumes "shape input_ids \<noteq> []"
  shows "(int (last (shape input_ids)) > max_text_tokens - 3 \<longrightarrow>
            generate max_text_tokens input_ids rest = ([], Inl (ValueError max_length_message)))
       \<and> (int (last (shape input_ids)) \<le> max_text_tokens - 3 \<longrightarrow>
            generate max_text_tokens input_ids rest = rest input_ids)"
  using assms by (simp add: generate_def Let_def)

theorem generate_length_check_witness:
  "generate 10 \<lparr>shape = [1, 8], payload = ()\<rparr>
       (\<lambda>ids. ([PadTokens, Conditioning, Decoding, SpeechEncoding, TextEncoding], Inr (shape ids)))
     = ([], Inl (ValueError max_length_message))
   \<and> generate 10 \<lparr>shape = [1, 7], payload = ()\<rparr>
       (\<lambda>ids. ([PadTokens, Conditioning, Decoding, SpeechEncoding, TextEncoding], Inr (shape ids)))
     = ([PadTokens, Conditioning, Decoding, SpeechEncoding, TextEncoding], Inr [1, 7])"
proof -
  let ?rest = "\<lambda>ids :: unit tensor.
     ([PadTokens, Conditioning, Decoding, SpeechEncoding, TextEncoding], Inr (shape ids) :: error + nat list)"
  have a: "generate 10 \<lparr>shape = [1, 8], payload = ()\<rparr> ?rest
      = ([], Inl (ValueError max_length_message))"
    using generate_length_check [of "\<lparr>shape = [1, 8], payload = ()\<rparr>" 10 ?rest] by simp
  have b: "generate 10 \<lparr>shape = [1, 7], payload = ()\<rparr> ?rest
      = ([PadTokens, Conditioning, Decoding, SpeechEncoding, TextEncoding], Inr [1, 7])"
    using generate_length_check [of "\<lparr>shape = [1, 7], payload = ()\<rparr>" 10 ?rest] by simp
  from a b show ?thesis by (intro conjI)
qed

section \<open>Properties of \<open>LlavaConfig.__init__\<close>\<close>

lemma fold_setattr_keeps_strategy:
  "''vision_feature_select_strategy'' \<notin> set (map fst kwargs) \<Longrightarrow>
   vision_feature_select_strategy (fold (\<lambda>(key, v) obj. LlavaConfig_setattr obj key v) kwargs self)
     = vision_feature_select_strategy self"
proof (induction kwargs arbitrary: self)
  case Nil
  show ?case by simp
next
  case (Cons entry kwargs)
  obtain key v where entry: "entry = (key, v)" by (cases entry)
  with Cons.prems have key: "key \<noteq> ''vision_feature_select_strategy''"
    and rest: "''vision_feature_select_strategy'' \<notin> set (map fst kwargs)"
    by auto
  from key have "vision_feature_select_strategy (LlavaConfig_setattr self key v)
      = vision_feature_select_strategy self"
    by (simp add: LlavaConfig_setattr_def vocab_size_setter_def)
  with Cons.IH [OF rest, of "LlavaConfig_setattr self key v"] entry show ?case
    by simp
qed

lemma setattr_kwargs_keeps_strategy:
  assumes "\<forall>name \<in> set named_parameters. name \<notin> set (map fst kwargs)"
    and "setattr_kwargs self kwargs = Inr self'"
  shows "vision_feature_select_strategy self' = vision_feature_select_strategy self"
proof -
  from assms(1) have "''vision_feature_select_strategy'' \<notin> set (map fst kwargs)"
    by (simp add: named_parameters_def)
  from fold_setattr_keeps_strategy [OF this, of self] assms(2) show ?thesis
    by (auto simp: setattr_kwargs_def)
qed

text \<open>
  C2. Constructing a \<open>LlavaConfig\<close> with a \<open>vision_feature_select_strategy\<close> that is
  neither "default" nor "full" raises the \<open>ValueError\<close>. For either of the two values
  the check passes: once the two sub-configurations are resolved, the object handed to
  the base-class constructor holds the value in its \<open>vision_feature_select_strategy\<close>
  attribute, and the configuration constructed holds it unchanged. The base-class
  constructor is code outside these files; it is assumed to leave this attribute alone
  when given keywords that do not name it (\<open>kwargs\<close> never names a parameter of
  \<open>__init__\<close>).
\<close>

theorem LlavaConfig_strategy_check:
  assumes named: "\<forall>name \<in> set named_parameters. name \<notin> set (map fst kwargs)"
    and frame: "\<forall>obj obj'. super_init obj kwargs = Inr obj' \<longrightarrow>
                  vision_feature_select_strategy obj' = vision_feature_select_strategy obj"
  shows
  "(strategy \<notin> {PyStr ''default'', PyStr ''full''} \<longrightarrow>
      LlavaConfig_init CONFIG_MAPPING vocab_size_of super_init vc tc ii iti act strategy vfl kwargs
        = Inl (ValueError strategy_message))
   \<and> (strategy \<in> {PyStr ''default'', PyStr ''full''}
        \<and> resolve_config CONFIG_MAPPING ''clip_vision_model'' default_vision_kwargs vc = Inr vcfg
        \<and> resolve_config CONFIG_MAPPING ''llama'' Map.empty tc = Inr tcfg
        \<and> vocab_size_of tcfg = Inr vs \<longrightarrow>
      LlavaConfig_init CONFIG_MAPPING vocab_size_of super_init vc tc ii iti act strategy vfl kwargs
        = super_init
            \<lparr> ignore_index = ii, image_token_index = iti, projector_hidden_act = act,
              vision_feature_select_strategy = strategy, vision_feature_layer = vfl,
              vision_config = vcfg, text_config = tcfg, vocab_size_private = vs,
              attributes = Map.empty \<rparr>
            kwargs)
   \<and> (strategy \<in> {PyStr ''default'', PyStr ''full''} \<longrightarrow>
      (\<forall>cfg. LlavaConfig_init CONFIG_MAPPING vocab_size_of super_init vc tc ii iti act strategy
               vfl kwargs = Inr cfg \<longrightarrow> vision_feature_select_strategy cfg = strategy))"
proof -
  from named have no_clash:
    "\<not> (\<exists>name \<in> set named_parameters. name \<in> set (map fst kwargs))"
    by blast
  have a: "LlavaConfig_init CONFIG_MAPPING vocab_size_of super_init vc tc ii iti act strategy
      vfl kwargs = Inl (ValueError strategy_message)"
    if "strategy \<notin> {PyStr ''default'', PyStr ''full''}"
    using that no_clash by (simp add: LlavaConfig_init_def)
  have b: "LlavaConfig_init CONFIG_MAPPING vocab_size_of super_init vc tc ii iti act strategy
      vfl kwargs
        = super_init
            \<lparr> ignore_index = ii, image_token_index = iti, projector_hidden_act = act,
              vision_feature_select_strategy = strategy, vision_feature_layer = vfl,
              vision_config = vcfg, text_config = tcfg, vocab_size_private = vs,
              attributes = Map.empty \<rparr>
            kwargs"
    if "strategy \<in> {PyStr ''default'', PyStr ''full''}"
      "resolve_config CONFIG_MAPPING ''clip_vision_model'' default_vision_kwargs vc = Inr vcfg"
      "resolve_config CONFIG_MAPPING ''llama'' Map.empty tc = Inr tcfg"
      "vocab_size_of tcfg = Inr vs"
    using that no_clash by (simp add: LlavaConfig_init_def)
  have c: "vision_feature_select_strategy cfg = strategy"
    if ok: "strategy \<in> {PyStr ''default'', PyStr ''full''}"
      and run: "LlavaConfig_init CONFIG_MAPPING vocab_size_of super_init vc tc ii iti act strategy
               vfl kwargs = Inr cfg" for cfg
  proof -
    from run ok no_clash obtain vcfg' tcfg' vs' where
      "super_init
         \<lparr> ignore_index = ii, image_token_index = iti, projector_hidden_act = act,
           vision_feature_select_strategy = strategy, vision_feature_layer = vfl,
           vision_config = vcfg', text_config = tcfg', vocab_size_private = vs',
           attributes = Map.empty \<rparr> kwargs = Inr cfg"
      by (simp add: LlavaConfig_init_def split: sum.splits if_splits)
    with frame show ?thesis by fastforce
  qed
  from a b c show ?thesis by blast
qed

text \<open>
  The witness constructs configurations against a two-entry \<open>CONFIG_MAPPING\<close> whose
  constructors keep the keyword dictionary, with \<open>setattr_kwargs\<close> as the base-class
  constructor and the keywords \<open>vocab_size = 5\<close> and \<open>torch_dtype = "float16"\<close>: a
  rejected strategy, and an accepted one, for which the keyword has gone through the
  setter to \<open>_vocab_size\<close> while the strategy is as passed.
\<close>

theorem LlavaConfig_strategy_check_witness:
  "LlavaConfig_init [''clip_vision_model'' \<mapsto> Inr, ''llama'' \<mapsto> Inr] (\<lambda>c. Inr (PyInt 32000))
       setattr_kwargs ArgNone ArgNone (PyInt (- 100)) (PyInt 32000) (PyStr ''gelu'')
       (PyStr ''banana'') (PyInt (- 2))
       [(''vocab_size'', PyInt 5), (''torch_dtype'', PyStr ''float16'')]
     = Inl (ValueError strategy_message)
   \<and> LlavaConfig_init [''clip_vision_model'' \<mapsto> Inr, ''llama'' \<mapsto> Inr] (\<lambda>c. Inr (PyInt 32000))
       setattr_kwargs ArgNone ArgNone (PyInt (- 100)) (PyInt 32000) (PyStr ''gelu'')
       (PyStr ''full'') (PyInt (- 2))
       [(''vocab_size'', PyInt 5), (''torch_dtype'', PyStr ''float16'')]
     = Inr \<lparr> ignore_index = PyInt (- 100), image_token_index = PyInt 32000,
             projector_hidden_act = PyStr ''gelu'',
             vision_feature_select_strategy = PyStr ''full'',
             vision_feature_layer = PyInt (- 2),
             vision_config = default_vision_kwargs, text_config = Map.empty,
             vocab_size_private = PyInt 5,
             attributes = [''torch_dtype'' \<mapsto> PyStr ''float16''] \<rparr>"
proof -
  let ?M = "[''clip_vision_model'' \<mapsto> Inr, ''llama'' \<mapsto> Inr] :: string \<rightharpoonup> (pydict \<Rightarrow> error + pydict)"
  let ?vs = "\<lambda>c :: pydict. Inr (PyInt 32000) :: error + pyval"
  let ?sup = "setattr_kwargs :: pydict LlavaConfig \<Rightarrow> (string \<times> pyval) list \<Rightarrow> error + pydict LlavaConfig"
  let ?kw = "[(''vocab_size'', PyInt 5), (''torch_dtype'', PyStr ''float16'')]"
  have named: "\<forall>name \<in> set named_parameters. name \<notin> set (map fst ?kw)"
    by (simp add: named_parameters_def)
  have frame: "\<forall>obj obj'. ?sup obj ?kw = Inr obj' \<longrightarrow>
      vision_feature_select_strategy obj' = vision_feature_select_strategy obj"
    using setattr_kwargs_keeps_strategy [OF named] by blast
  have v: "resolve_config ?M ''clip_vision_model'' default_vision_kwargs ArgNone
      = Inr default_vision_kwargs"
    by (simp add: resolve_config_def from_mapping_def)
  have t: "resolve_config ?M ''llama'' Map.empty ArgNone = Inr Map.empty"
    by (simp add: resolve_config_def from_mapping_def)
  note check = LlavaConfig_strategy_check [where super_init = ?sup and kwargs = ?kw, OF named frame]
  have a: "LlavaConfig_init ?M ?vs ?sup ArgNone ArgNone (PyInt (- 100)) (PyInt 32000)
      (PyStr ''gelu'') (PyStr ''banana'') (PyInt (- 2)) ?kw = Inl (ValueError strategy_message)"
    using check [where strategy = "PyStr ''banana''" and CONFIG_MAPPING = ?M
        and vocab_size_of = ?vs and vc = ArgNone and tc = ArgNone]
    by simp
  have b: "LlavaConfig_init ?M ?vs ?sup ArgNone ArgNone (PyInt (- 100)) (PyInt 32000)
      (PyStr ''gelu'') (PyStr ''full'') (PyInt (- 2)) ?kw
      = ?sup \<lparr> ignore_index = PyInt (- 100), image_token_index = PyInt 32000,
             projector_hidden_act = PyStr ''gelu'',
             vision_feature_select_strategy = PyStr ''full'',
             vision_feature_layer = PyInt (- 2),
             vision_config = default_vision_kwargs, text_config = Map.empty,
             vocab_size_private = PyInt 32000, attributes = Map.empty \<rparr> ?kw"
    using check [where strategy = "PyStr ''full''" and CONFIG_MAPPING = ?M
        and vocab_size_of = ?vs and vc = ArgNone and tc = ArgNone
        and vcfg = default_vision_kwargs and tcfg = Map.empty and vs = "PyInt 32000"
        and ii = "PyInt (- 100)" and iti = "PyInt 32000" and act = "PyStr ''gelu''"
        and vfl = "PyInt (- 2)"] v t
    by simp
  have c: "?sup \<lparr> ignore_index = PyInt (- 100), image_token_index = PyInt 32000,
             projector_hidden_act = PyStr ''gelu'',
             vision_feature_select_strategy = PyStr ''full'',
             vision_feature_layer = PyInt (- 2),
             vision_config = default_vision_kwargs, text_config = Map.empty,
             vocab_size_private = PyInt 32000, attributes = Map.empty \<rparr> ?kw
      = Inr \<lparr> ignore_index = PyInt (- 100), image_token_index = PyInt 32000,
             projector_hidden_act = PyStr ''gelu'',
             vision_feature_select_strategy = PyStr ''full'',
             vision_feature_layer = PyInt (- 2),
             vision_config = default_vision_kwargs, text_config = Map.empty,
             vocab_size_private = PyInt 5,
             attributes = [''torch_dtype'' \<mapsto> PyStr ''float16''] \<rparr>"
    by (simp add: setattr_kwargs_def LlavaConfig_setattr_def vocab_size_setter_def)
  from a b c show ?thesis by simp
qed

section \<open>Properties of the attention-mask step\<close>

text \<open>
  C5. In \<open>ClvpSelfAttention.forward\<close>, at the attention-mask step (query and key states
  have rank 4 there, so \<open>tgt_len\<close> and \<open>src_len\<close> are read): a mask whose shape is not
  \<open>(bsz, 1, tgt_len, src_len)\<close> raises the \<open>ValueError\<close>; a mask of exactly that shape
  does not raise, and the weights handed on are the softmax of the sum of the attention
  weights and the mask (the mask is added before the softmax).
\<close>

theorem attention_mask_shape_check:
  assumes "3 \<le> length (shape query_states)" and "3 \<le> length (shape key_states)"
  shows "(shape attn_mask \<noteq> [bsz, 1, shape query_states ! 2, shape key_states ! 2] \<longrightarrow>
            ClvpSelfAttention_forward_mask_step matmul_qk add softmax bsz query_states key_states (Some attn_mask)
              = Inl (ValueError mask_message))
       \<and> (shape attn_mask = [bsz, 1, shape query_states ! 2, shape key_states ! 2] \<longrightarrow>
            ClvpSelfAttention_forward_mask_step matmul_qk add softmax bsz query_states key_states (Some attn_mask)
              = Inr (softmax (add (matmul_qk query_states key_states) attn_mask)))"
  using assms by (simp add: ClvpSelfAttention_forward_mask_step_def Let_def)

text \<open>
  The witness runs the step on tensors whose payload is one number, with operators that
  make the order visible: the sum adds the payloads and the "softmax" doubles.
\<close>

theorem attention_mask_shape_check_witness:
  "ClvpSelfAttention_forward_mask_step
       (\<lambda>q k. \<lparr>shape = [2, 4, 5, 7], payload = payload q * payload k\<rparr>)
       (\<lambda>w m. w\<lparr>payload := payload w + payload m\<rparr>) (\<lambda>w. w\<lparr>payload := 2 * payload w\<rparr>) 2
       \<lparr>shape = [2, 4, 5, 8], payload = 3 :: int\<rparr> \<lparr>shape = [2, 4, 7, 8], payload = 5\<rparr>
       (Some \<lparr>shape = [2, 1, 5, 5], payload = 1\<rparr>)
     = Inl (ValueError mask_message)
   \<and> ClvpSelfAttention_forward_mask_step
       (\<lambda>q k. \<lparr>shape = [2, 4, 5, 7], payload = payload q * payload k\<rparr>)
       (\<lambda>w m. w\<lparr>payload := payload w + payload m\<rparr>) (\<lambda>w. w\<lparr>payload := 2 * payload w\<rparr>) 2
       \<lparr>shape = [2, 4, 5, 8], payload = 3 :: int\<rparr> \<lparr>shape = [2, 4, 7, 8], payload = 5\<rparr>
       (Some \<lparr>shape = [2, 1, 5, 7], payload = 1\<rparr>)
     = Inr \<lparr>shape = [2, 4, 5, 7], payload = 32\<rparr>"
proof -
  let ?mm = "\<lambda>q k :: int tensor. \<lparr>shape = [2, 4, 5, 7], payload = payload q * payload k\<rparr>"
  let ?add = "\<lambda>w m :: int tensor. w\<lparr>payload := payload w + payload m\<rparr>"
  let ?sm = "\<lambda>w :: int tensor. w\<lparr>payload := 2 * payload w\<rparr>"
  let ?q = "\<lparr>shape = [2, 4, 5, 8], payload = 3 :: int\<rparr>"
  let ?k = "\<lparr>shape = [2, 4, 7, 8], payload = 5 :: int\<rparr>"
  have r: "3 \<le> length (shape ?q)" "3 \<le> length (shape ?k)" by simp_all
  have a: "ClvpSelfAttention_forward_mask_step ?mm ?add ?sm 2 ?q ?k (Some \<lparr>shape = [2, 1, 5, 5], payload = 1\<rparr>)
      = Inl (ValueError mask_message)"
    using attention_mask_shape_check [OF r, of "\<lparr>shape = [2, 1, 5, 5], payload = 1\<rparr>" 2 ?mm ?add ?sm]
    by simp
  have b: "ClvpSelfAttention_forward_mask_step ?mm ?add ?sm 2 ?q ?k (Some \<lparr>shape = [2, 1, 5, 7], payload = 1\<rparr>)
      = Inr \<lparr>shape = [2, 4, 5, 7], payload = 32\<rparr>"
    using attention_mask_shape_check [OF r, of "\<lparr>shape = [2, 1, 5, 7], payload = 1\<rparr>" 2 ?mm ?add ?sm]
    by simp
  from a b show ?thesis by (intro conjI)
qed

section \<open>Properties of the rotary embedding cache\<close>

lemma forward_fresh:
  assumes "cache_consistent self"
    and "ClvpRotaryPositionalEmbedding_forward self hidden_states = Inr (embedding, self')"
  shows "embedding = fresh_embedding (inv_freq self) (shape hidden_states ! 1)"
    and "cache_consistent self'"
    and "inv_freq self' = inv_freq self"
  using assms
  by (auto simp: ClvpRotaryPositionalEmbedding_forward_def cache_consistent_def
      fresh_embedding_def Let_def split: if_splits option.splits)

lemma forward_error_iff:
  "(\<exists>e. ClvpRotaryPositionalEmbedding_forward self hidden_states = Inl e)
     \<longleftrightarrow> length (shape hidden_states) < 2"
  by (simp add: ClvpRotaryPositionalEmbedding_forward_def Let_def)

lemma forward_calls_fresh:
  "cache_consistent self \<Longrightarrow>
   forward_calls self inputs = map (forward_without_cache (inv_freq self)) inputs"
proof (induction inputs arbitrary: self)
  case Nil
  show ?case by simp
next
  case (Cons hidden_states rest)
  show ?case
  proof (cases "ClvpRotaryPositionalEmbedding_forward self hidden_states")
    case (Inl e)
    then have "length (shape hidden_states) < 2"
      using forward_error_iff [of self hidden_states] by blast
    moreover have "e = IndexError"
      using Inl by (simp add: ClvpRotaryPositionalEmbedding_forward_def Let_def split: if_splits)
    ultimately show ?thesis
      using Inl Cons.IH [OF Cons.prems] by (simp add: forward_without_cache_def)
  next
    case (Inr r)
    obtain embedding self' where r: "r = (embedding, self')" by (cases r)
    from Inr r have run: "ClvpRotaryPositionalEmbedding_forward self hidden_states
        = Inr (embedding, self')" by simp
    have rank: "\<not> length (shape hidden_states) < 2"
      using run forward_error_iff [of self hidden_states] by auto
    note f = forward_fresh [OF Cons.prems run]
    from Cons.IH [OF f(2)] f(1,3) run rank show ?thesis
      by (simp add: forward_without_cache_def)
  qed
qed

text \<open>
  C8. The sequence-length cache of \<open>ClvpRotaryPositionalEmbedding.forward\<close> is
  transparent: for every sequence of calls on a module as \<open>__init__\<close> leaves it, each call
  returns what the cache-free computation returns for its input (the embedding computed
  afresh from \<open>inv_freq\<close> for \<open>hidden_states.shape[1]\<close>), so the result of a call
  depends on the input only through \<open>shape[1]\<close> and not on the calls before it.
\<close>

theorem rotary_cache_transparent:
  "forward_calls (ClvpRotaryPositionalEmbedding_init inv_freq_buffer) inputs
     = map (forward_without_cache inv_freq_buffer) inputs"
proof -
  have "cache_consistent (ClvpRotaryPositionalEmbedding_init inv_freq_buffer)"
    by (simp add: cache_consistent_def ClvpRotaryPositionalEmbedding_init_def)
  from forward_calls_fresh [OF this] show ?thesis
    by (simp add: ClvpRotaryPositionalEmbedding_init_def)
qed

theorem rotary_cache_transparent_witness:
  "forward_calls (ClvpRotaryPositionalEmbedding_init [1, 1 / 2])
      [\<lparr>shape = [1, 2, 8], payload = ()\<rparr>, \<lparr>shape = [4, 2, 8], payload = ()\<rparr>,
       \<lparr>shape = [1, 3, 8], payload = ()\<rparr>, \<lparr>shape = [7], payload = ()\<rparr>,
       \<lparr>shape = [1, 2, 8], payload = ()\<rparr>]
     = [Inr [[[0, 0, 0, 0], [1, 1 / 2, 1, 1 / 2]]],
        Inr [[[0, 0, 0, 0], [1, 1 / 2, 1, 1 / 2]]],
        Inr [[[0, 0, 0, 0], [1, 1 / 2, 1, 1 / 2], [2, 1, 2, 1]]],
        Inl IndexError,
        Inr [[[0, 0, 0, 0], [1, 1 / 2, 1, 1 / 2]]]]"
proof -
  have two: "[0..<2] = [0, 1]" and three: "[0..<3] = [0, 1, 2]"
    by (simp_all add: upt_rec)
  show ?thesis
    unfolding rotary_cache_transparent
    by (simp add: forward_without_cache_def fresh_embedding_def two three)
qed

section \<open>Properties of the rotary step\<close>

lemma collect_map_Inr:
  "(\<And>x. x \<in> set xs \<Longrightarrow> f x = Inr (g x)) \<Longrightarrow> collect (map f xs) = Inr (map g xs)"
  by (induction xs) simp_all

lemma map2_nth: "length xs = length ys \<Longrightarrow>
   map2 f xs ys = map (\<lambda>i. f (xs ! i) (ys ! i)) [0..<length xs]"
  by (rule nth_equalityI) simp_all

lemma broadcast_nth:
  assumes "length xs = length ys"
    and "\<And>i. i < length xs \<Longrightarrow> f (xs ! i) (ys ! i) = Inr (g i)"
  shows "broadcast f xs ys = Inr (map g [0..<length xs])"
proof -
  have "collect (map (\<lambda>i. f (xs ! i) (ys ! i)) [0..<length xs]) = Inr (map g [0..<length xs])"
    by (rule collect_map_Inr) (simp add: assms(2))
  then show ?thesis
    using assms(1) by (simp add: broadcast_def map2_nth)
qed

lemma broadcast_single_nth:
  assumes "\<And>i. i < length xs \<Longrightarrow> f (xs ! i) y = Inr (g i)"
  shows "broadcast f xs [y] = Inr (map g [0..<length xs])"
proof -
  have m: "map (\<lambda>x. f x y) xs = map (\<lambda>i. f (xs ! i) y) [0..<length xs]"
    by (rule nth_equalityI) simp_all
  have c: "collect (map (\<lambda>i. f (xs ! i) y) [0..<length xs]) = Inr (map g [0..<length xs])"
    by (rule collect_map_Inr) (simp add: assms)
  show ?thesis
  proof (cases "length xs = 1")
    case True
    then obtain x where x: "xs = [x]" by (cases xs) auto
    with c show ?thesis by (simp add: broadcast_def)
  next
    case False
    with m c show ?thesis by (simp add: broadcast_def)
  qed
qed

lemma broadcast_vec:
  "length a = length c \<Longrightarrow> broadcast (\<lambda>x y. Inr (h x y)) a c = Inr (map2 h a c)"
proof -
  assume l: "length a = length c"
  have "collect (map (\<lambda>(x, y). Inr (h x y)) (zip a c)) = Inr (map (\<lambda>(x, y). h x y) (zip a c))"
    by (rule collect_map_Inr) auto
  with l show ?thesis by (simp add: broadcast_def)
qed


lemma length_rotate_half_vec [simp]: "length (rotate_half_vec x) = length x"
  by (simp add: rotate_half_vec_def Let_def)

text \<open>One product of the rotary formula, on a whole tensor.\<close>

lemma mul4_rows:
  fixes x :: tensor4 and rows :: "real list list list"
  assumes batch: "length rows = 1 \<or> length rows = length x"
    and seq: "\<And>b h. b < length x \<Longrightarrow> h < length (x ! b) \<Longrightarrow>
               length (x ! b ! h) = length (rows ! (if length rows = 1 then 0 else b))"
    and vec: "\<And>b h s. b < length x \<Longrightarrow> h < length (x ! b) \<Longrightarrow> s < length (x ! b ! h) \<Longrightarrow>
               length (x ! b ! h ! s) = length (rows ! (if length rows = 1 then 0 else b) ! s)"
  shows "mul4 x (unsqueeze1 rows) =
     Inr (map (\<lambda>b. map (\<lambda>h. map (\<lambda>s. map2 (*) (x ! b ! h ! s)
                                         (rows ! (if length rows = 1 then 0 else b) ! s))
                               [0..<length (x ! b ! h)])
                     [0..<length (x ! b)])
              [0..<length x])"
proof -
  let ?f1 = "\<lambda>(a :: real) b. Inr (a * b) :: error + real"
  let ?r = "\<lambda>b. rows ! (if length rows = 1 then 0 else b)"
  have l3: "broadcast (broadcast ?f1) (x ! b ! h) (?r b) =
      Inr (map (\<lambda>s. map2 (*) (x ! b ! h ! s) (?r b ! s)) [0..<length (x ! b ! h)])"
    if "b < length x" "h < length (x ! b)" for b h
    by (rule broadcast_nth) (simp_all only: seq [OF that] vec [OF that] broadcast_vec)
  have l2: "broadcast (broadcast (broadcast ?f1)) (x ! b) [?r b] =
      Inr (map (\<lambda>h. map (\<lambda>s. map2 (*) (x ! b ! h ! s) (?r b ! s)) [0..<length (x ! b ! h)])
             [0..<length (x ! b)])"
    if "b < length x" for b
    by (rule broadcast_single_nth) (rule l3 [OF that])
  show ?thesis
  proof (cases "length rows = 1")
    case True
    then obtain r where r: "rows = [r]" by (cases rows) auto
    have "broadcast (broadcast (broadcast (broadcast ?f1))) x [[r]] =
      Inr (map (\<lambda>b. map (\<lambda>h. map (\<lambda>s. map2 (*) (x ! b ! h ! s) (r ! s)) [0..<length (x ! b ! h)])
             [0..<length (x ! b)]) [0..<length x])"
      by (rule broadcast_single_nth) (use l2 r in simp)
    with r show ?thesis by (simp add: mul4_def unsqueeze1_def)
  next
    case False
    with batch have len: "length x = length (unsqueeze1 rows)"
      by (simp add: unsqueeze1_def)
    have "broadcast (broadcast (broadcast (broadcast ?f1))) x (unsqueeze1 rows) =
      Inr (map (\<lambda>b. map (\<lambda>h. map (\<lambda>s. map2 (*) (x ! b ! h ! s) (?r b ! s)) [0..<length (x ! b ! h)])
             [0..<length (x ! b)]) [0..<length x])"
    proof (rule broadcast_nth [OF len])
      fix b assume b: "b < length x"
      with len have "unsqueeze1 rows ! b = [rows ! b]" by (simp add: unsqueeze1_def)
      with l2 [OF b] False show "broadcast (broadcast (broadcast ?f1)) (x ! b) (unsqueeze1 rows ! b)
        = Inr (map (\<lambda>h. map (\<lambda>s. map2 (*) (x ! b ! h ! s) (?r b ! s)) [0..<length (x ! b ! h)])
             [0..<length (x ! b)])" by simp
    qed
    then show ?thesis by (simp add: mul4_def)
  qed
qed


lemma add4_same:
  fixes x y :: tensor4
  assumes l1: "length x = length y"
    and l2: "\<And>b. b < length x \<Longrightarrow> length (x ! b) = length (y ! b)"
    and l3: "\<And>b h. b < length x \<Longrightarrow> h < length (x ! b) \<Longrightarrow>
               length (x ! b ! h) = length (y ! b ! h)"
    and l4: "\<And>b h s. b < length x \<Longrightarrow> h < length (x ! b) \<Longrightarrow> s < length (x ! b ! h) \<Longrightarrow>
               length (x ! b ! h ! s) = length (y ! b ! h ! s)"
  shows "add4 x y =
     Inr (map (\<lambda>b. map (\<lambda>h. map (\<lambda>s. map2 (+) (x ! b ! h ! s) (y ! b ! h ! s))
                               [0..<length (x ! b ! h)])
                     [0..<length (x ! b)])
              [0..<length x])"
proof -
  let ?f1 = "\<lambda>(a :: real) b. Inr (a + b) :: error + real"
  have s3: "broadcast (broadcast ?f1) (x ! b ! h) (y ! b ! h) =
      Inr (map (\<lambda>s. map2 (+) (x ! b ! h ! s) (y ! b ! h ! s)) [0..<length (x ! b ! h)])"
    if "b < length x" "h < length (x ! b)" for b h
    by (rule broadcast_nth) (simp_all only: l3 [OF that] l4 [OF that] broadcast_vec)
  have s2: "broadcast (broadcast (broadcast ?f1)) (x ! b) (y ! b) =
      Inr (map (\<lambda>h. map (\<lambda>s. map2 (+) (x ! b ! h ! s) (y ! b ! h ! s)) [0..<length (x ! b ! h)])
             [0..<length (x ! b)])"
    if "b < length x" for b
    by (rule broadcast_nth) (simp_all only: l2 [OF that] s3 [OF that])
  have "broadcast (broadcast (broadcast (broadcast ?f1))) x y =
      Inr (map (\<lambda>b. map (\<lambda>h. map (\<lambda>s. map2 (+) (x ! b ! h ! s) (y ! b ! h ! s))
             [0..<length (x ! b ! h)]) [0..<length (x ! b)]) [0..<length x])"
    by (rule broadcast_nth) (simp_all only: l1 s2)
  then show ?thesis by (simp add: add4_def)
qed

lemma zip_exact_nth:
  assumes "length xs = length ys"
    and "\<And>i. i < length xs \<Longrightarrow> f (xs ! i) (ys ! i) = Inr (g i)"
  shows "zip_exact f xs ys = Inr (map g [0..<length xs])"
proof -
  have "collect (map (\<lambda>i. f (xs ! i) (ys ! i)) [0..<length xs]) = Inr (map g [0..<length xs])"
    by (rule collect_map_Inr) (simp add: assms(2))
  then show ?thesis
    using assms(1) by (simp add: zip_exact_def map2_nth)
qed

lemma cat_last_same:
  fixes x y :: tensor4
  assumes l1: "length x = length y"
    and l2: "\<And>b. b < length x \<Longrightarrow> length (x ! b) = length (y ! b)"
    and l3: "\<And>b h. b < length x \<Longrightarrow> h < length (x ! b) \<Longrightarrow>
               length (x ! b ! h) = length (y ! b ! h)"
  shows "cat_last x y =
     Inr (map (\<lambda>b. map (\<lambda>h. map (\<lambda>s. x ! b ! h ! s @ y ! b ! h ! s)
                               [0..<length (x ! b ! h)])
                     [0..<length (x ! b)])
              [0..<length x])"
proof -
  let ?f1 = "\<lambda>(a :: real list) b. Inr (a @ b) :: error + real list"
  have s3: "zip_exact ?f1 (x ! b ! h) (y ! b ! h) =
      Inr (map (\<lambda>s. x ! b ! h ! s @ y ! b ! h ! s) [0..<length (x ! b ! h)])"
    if "b < length x" "h < length (x ! b)" for b h
    by (rule zip_exact_nth) (simp_all only: l3 [OF that])
  have s2: "zip_exact (zip_exact ?f1) (x ! b) (y ! b) =
      Inr (map (\<lambda>h. map (\<lambda>s. x ! b ! h ! s @ y ! b ! h ! s) [0..<length (x ! b ! h)])
             [0..<length (x ! b)])"
    if "b < length x" for b
    by (rule zip_exact_nth) (simp_all only: l2 [OF that] s3 [OF that])
  have "zip_exact (zip_exact (zip_exact ?f1)) x y =
      Inr (map (\<lambda>b. map (\<lambda>h. map (\<lambda>s. x ! b ! h ! s @ y ! b ! h ! s)
             [0..<length (x ! b ! h)]) [0..<length (x ! b)]) [0..<length x])"
    by (rule zip_exact_nth) (simp_all only: l1 s2)
  then show ?thesis by (simp add: cat_last_def)
qed

lemma gather_rows_in_range:
  assumes "\<forall>row \<in> set position_ids. \<forall>p \<in> set row. p < length table"
  shows "gather_rows table position_ids = Inr (map (map (\<lambda>p. table ! p)) position_ids)"
proof -
  have inner: "collect (map (\<lambda>p. if p < length table then Inr (table ! p) else Inl IndexError) row)
      = Inr (map (\<lambda>p. table ! p) row)" if "row \<in> set position_ids" for row
    by (rule collect_map_Inr) (use assms that in auto)
  show ?thesis
    unfolding gather_rows_def by (rule collect_map_Inr) (rule inner)
qed



lemma nth_slice_to:
  "b < length x \<Longrightarrow> h < length (x ! b) \<Longrightarrow> s < length (x ! b ! h) \<Longrightarrow>
   slice_to n x ! b ! h ! s = take n (x ! b ! h ! s)"
  by (simp add: slice_to_def)

lemma nth_slice_from:
  "b < length x \<Longrightarrow> h < length (x ! b) \<Longrightarrow> s < length (x ! b ! h) \<Longrightarrow>
   slice_from n x ! b ! h ! s = drop n (x ! b ! h ! s)"
  by (simp add: slice_from_def)

lemma nth_rotate_half:
  "b < length x \<Longrightarrow> h < length (x ! b) \<Longrightarrow> s < length (x ! b ! h) \<Longrightarrow>
   rotate_half x ! b ! h ! s = rotate_half_vec (x ! b ! h ! s)"
  by (simp add: rotate_half_def)

lemma length_slices [simp]:
  "length (slice_to n x) = length x" "length (slice_from n x) = length x"
  "length (rotate_half x) = length x"
  "b < length x \<Longrightarrow> length (slice_to n x ! b) = length (x ! b)"
  "b < length x \<Longrightarrow> length (slice_from n x ! b) = length (x ! b)"
  "b < length x \<Longrightarrow> length (rotate_half x ! b) = length (x ! b)"
  "b < length x \<Longrightarrow> h < length (x ! b) \<Longrightarrow> length (slice_to n x ! b ! h) = length (x ! b ! h)"
  "b < length x \<Longrightarrow> h < length (x ! b) \<Longrightarrow> length (slice_from n x ! b ! h) = length (x ! b ! h)"
  "b < length x \<Longrightarrow> h < length (x ! b) \<Longrightarrow> length (rotate_half x ! b ! h) = length (x ! b ! h)"
  by (simp_all add: slice_to_def slice_from_def rotate_half_def)

lemma map_upt_cong:
  "n = m \<Longrightarrow> (\<And>i. i < n \<Longrightarrow> f i = g i) \<Longrightarrow> map f [0..<n] = map g [0..<m]"
  by simp

text \<open>The rotary formula on one tensor, and the concatenation with the part passed through.\<close>

lemma rotate_one:
  fixes x :: tensor4
  assumes c: "rotary_compatible table position_ids x"
  shows "(case rotary_embed (slice_to (row_length table) x)
                 (unsqueeze1 (map (map (\<lambda>p. map (map cos_fn) table ! p)) position_ids))
                 (unsqueeze1 (map (map (\<lambda>p. map (map sin_fn) table ! p)) position_ids)) of
            Inl e \<Rightarrow> Inl e
          | Inr x_rot \<Rightarrow> cat_last x_rot (slice_from (row_length table) x))
         = Inr (rotated_states cos_fn sin_fn table position_ids x)"
proof -
  define d where "d = row_length table"
  define xs where "xs = slice_to d x"
  define cr where "cr = map (map (\<lambda>p. map (map cos_fn) table ! p)) position_ids"
  define sr where "sr = map (map (\<lambda>p. map (map sin_fn) table ! p)) position_ids"
  define idx :: "nat \<Rightarrow> nat" where "idx = (\<lambda>b. if length position_ids = 1 then 0 else b)"
  have batch: "length position_ids = 1 \<or> length position_ids = length x"
    and pos: "\<And>row p. row \<in> set position_ids \<Longrightarrow> p \<in> set row \<Longrightarrow> p < length table"
    and tab: "\<And>angles. angles \<in> set table \<Longrightarrow> length angles = d"
    and sq: "\<And>b x_bh. b < length x \<Longrightarrow> x_bh \<in> set (x ! b) \<Longrightarrow>
               length x_bh = length (position_row position_ids b)"
    and vc: "\<And>b x_bh vec. b < length x \<Longrightarrow> x_bh \<in> set (x ! b) \<Longrightarrow> vec \<in> set x_bh \<Longrightarrow>
               d \<le> length vec"
    using c by (auto simp: rotary_compatible_def d_def)
  have idx: "idx b < length position_ids" if "b < length x" for b
    using batch that by (auto simp: idx_def)
  have prow: "position_row position_ids b = position_ids ! idx b" for b
    by (simp add: position_row_def idx_def)
  have lcr: "length cr = length position_ids" and lsr: "length sr = length position_ids"
    by (simp_all add: cr_def sr_def)
  have seq: "length (x ! b ! h) = length (position_ids ! idx b)"
    if "b < length x" "h < length (x ! b)" for b h
    using sq [of b "x ! b ! h"] that by (simp add: prow)
  have p_ok: "position_ids ! idx b ! s < length table"
    if "b < length x" "h < length (x ! b)" "s < length (x ! b ! h)" for b h s
    using pos [of "position_ids ! idx b" "position_ids ! idx b ! s"] idx [OF that(1)]
      seq [OF that(1,2)] that(3) by simp
  have angles: "length (table ! (position_ids ! idx b ! s)) = d"
    if "b < length x" "h < length (x ! b)" "s < length (x ! b ! h)" for b h s
    using tab [of "table ! (position_ids ! idx b ! s)"] p_ok [OF that] by simp
  have vlen: "d \<le> length (x ! b ! h ! s)"
    if "b < length x" "h < length (x ! b)" "s < length (x ! b ! h)" for b h s
    using vc [of b "x ! b ! h" "x ! b ! h ! s"] that by simp
  have cr_nth: "cr ! idx b ! s = map cos_fn (table ! (position_ids ! idx b ! s))"
    and sr_nth: "sr ! idx b ! s = map sin_fn (table ! (position_ids ! idx b ! s))"
    if "b < length x" "h < length (x ! b)" "s < length (x ! b ! h)" for b h s
    using idx [OF that(1)] seq [OF that(1,2)] that(3) p_ok [OF that]
    by (simp_all add: cr_def sr_def)
  have cr_len: "length (cr ! idx b) = length (position_ids ! idx b)"
    and sr_len: "length (sr ! idx b) = length (position_ids ! idx b)"
    if "b < length x" for b
    using idx [OF that] by (simp_all add: cr_def sr_def)
  have xs_nth: "xs ! b ! h ! s = take d (x ! b ! h ! s)"
    if "b < length x" "h < length (x ! b)" "s < length (x ! b ! h)" for b h s
    using that by (simp add: xs_def nth_slice_to)
  have xs_len: "length xs = length x" "\<And>b. b < length x \<Longrightarrow> length (xs ! b) = length (x ! b)"
    "\<And>b h. b < length x \<Longrightarrow> h < length (x ! b) \<Longrightarrow> length (xs ! b ! h) = length (x ! b ! h)"
    by (simp_all add: xs_def)
  have xs_vlen: "length (xs ! b ! h ! s) = d"
    if "b < length x" "h < length (x ! b)" "s < length (x ! b ! h)" for b h s
    using xs_nth [OF that] vlen [OF that] by simp
  let ?ix = "\<lambda>b :: nat. if length cr = 1 then 0 else b"
  have ix: "?ix = idx" by (simp add: idx_def lcr)
  let ?iy = "\<lambda>b :: nat. if length sr = 1 then 0 else b"
  have iy: "?iy = idx" by (simp add: idx_def lsr)
  have m1: "mul4 xs (unsqueeze1 cr) =
     Inr (map (\<lambda>b. map (\<lambda>h. map (\<lambda>s. map2 (*) (xs ! b ! h ! s) (cr ! idx b ! s))
                               [0..<length (xs ! b ! h)])
                     [0..<length (xs ! b)])
              [0..<length xs])"
  proof -
    have "mul4 xs (unsqueeze1 cr) =
     Inr (map (\<lambda>b. map (\<lambda>h. map (\<lambda>s. map2 (*) (xs ! b ! h ! s) (cr ! ?ix b ! s))
                               [0..<length (xs ! b ! h)])
                     [0..<length (xs ! b)])
              [0..<length xs])"
    proof (rule mul4_rows)
      show "length cr = 1 \<or> length cr = length xs"
        using batch by (simp add: lcr xs_len)
    next
      fix b h assume "b < length xs" "h < length (xs ! b)"
      then have bh: "b < length x" "h < length (x ! b)" by (simp_all add: xs_len)
      show "length (xs ! b ! h) = length (cr ! ?ix b)"
        unfolding ix using seq [OF bh] cr_len [OF bh(1)] xs_len(3) [OF bh] by simp
    next
      fix b h s assume "b < length xs" "h < length (xs ! b)" "s < length (xs ! b ! h)"
      then have bhs: "b < length x" "h < length (x ! b)" "s < length (x ! b ! h)"
        by (simp_all add: xs_len)
      show "length (xs ! b ! h ! s) = length (cr ! ?ix b ! s)"
        unfolding ix using xs_vlen [OF bhs] cr_nth [OF bhs] angles [OF bhs] by simp
    qed
    then show ?thesis unfolding ix .
  qed
  define rh where "rh = rotate_half xs"
  have rh_len: "length rh = length x" "\<And>b. b < length x \<Longrightarrow> length (rh ! b) = length (x ! b)"
    "\<And>b h. b < length x \<Longrightarrow> h < length (x ! b) \<Longrightarrow> length (rh ! b ! h) = length (x ! b ! h)"
    by (simp_all add: rh_def xs_len)
  have rh_nth: "rh ! b ! h ! s = rotate_half_vec (xs ! b ! h ! s)"
    if "b < length x" "h < length (x ! b)" "s < length (x ! b ! h)" for b h s
    unfolding rh_def using that by (intro nth_rotate_half) (simp_all add: xs_len)
  have m2: "mul4 rh (unsqueeze1 sr) =
     Inr (map (\<lambda>b. map (\<lambda>h. map (\<lambda>s. map2 (*) (rh ! b ! h ! s) (sr ! idx b ! s))
                               [0..<length (rh ! b ! h)])
                     [0..<length (rh ! b)])
              [0..<length rh])"
  proof -
    have "mul4 rh (unsqueeze1 sr) =
     Inr (map (\<lambda>b. map (\<lambda>h. map (\<lambda>s. map2 (*) (rh ! b ! h ! s) (sr ! ?iy b ! s))
                               [0..<length (rh ! b ! h)])
                     [0..<length (rh ! b)])
              [0..<length rh])"
    proof (rule mul4_rows)
      show "length sr = 1 \<or> length sr = length rh"
        using batch by (simp add: lsr rh_len)
    next
      fix b h assume "b < length rh" "h < length (rh ! b)"
      then have bh: "b < length x" "h < length (x ! b)" by (simp_all add: rh_len)
      show "length (rh ! b ! h) = length (sr ! ?iy b)"
        unfolding iy using seq [OF bh] sr_len [OF bh(1)] rh_len(3) [OF bh] by simp
    next
      fix b h s assume "b < length rh" "h < length (rh ! b)" "s < length (rh ! b ! h)"
      then have bhs: "b < length x" "h < length (x ! b)" "s < length (x ! b ! h)"
        by (simp_all add: rh_len)
      show "length (rh ! b ! h ! s) = length (sr ! ?iy b ! s)"
        unfolding iy using rh_nth [OF bhs] xs_vlen [OF bhs] sr_nth [OF bhs] angles [OF bhs]
        by simp
    qed
    then show ?thesis unfolding iy .
  qed
  define A where "A = map (\<lambda>b. map (\<lambda>h. map (\<lambda>s. map2 (*) (xs ! b ! h ! s) (cr ! idx b ! s))
        [0..<length (xs ! b ! h)]) [0..<length (xs ! b)]) [0..<length xs]"
  define B where "B = map (\<lambda>b. map (\<lambda>h. map (\<lambda>s. map2 (*) (rh ! b ! h ! s) (sr ! idx b ! s))
        [0..<length (rh ! b ! h)]) [0..<length (rh ! b)]) [0..<length rh]"
  have A_len: "length A = length x" "\<And>b. b < length x \<Longrightarrow> length (A ! b) = length (x ! b)"
    "\<And>b h. b < length x \<Longrightarrow> h < length (x ! b) \<Longrightarrow> length (A ! b ! h) = length (x ! b ! h)"
    by (simp_all add: A_def xs_len)
  have B_len: "length B = length x" "\<And>b. b < length x \<Longrightarrow> length (B ! b) = length (x ! b)"
    "\<And>b h. b < length x \<Longrightarrow> h < length (x ! b) \<Longrightarrow> length (B ! b ! h) = length (x ! b ! h)"
    by (simp_all add: B_def rh_len)
  have A_nth: "A ! b ! h ! s = map2 (*) (take d (x ! b ! h ! s))
                                 (map cos_fn (table ! (position_ids ! idx b ! s)))"
    if "b < length x" "h < length (x ! b)" "s < length (x ! b ! h)" for b h s
    using that xs_nth [OF that] cr_nth [OF that] by (simp add: A_def xs_len)
  have B_nth: "B ! b ! h ! s = map2 (*) (rotate_half_vec (take d (x ! b ! h ! s)))
                                 (map sin_fn (table ! (position_ids ! idx b ! s)))"
    if "b < length x" "h < length (x ! b)" "s < length (x ! b ! h)" for b h s
    using that rh_nth [OF that] xs_nth [OF that] sr_nth [OF that] by (simp add: B_def rh_len)
  define C where "C = map (\<lambda>b. map (\<lambda>h. map (\<lambda>s. map2 (+) (A ! b ! h ! s) (B ! b ! h ! s))
        [0..<length (A ! b ! h)]) [0..<length (A ! b)]) [0..<length A]"
  have add: "add4 A B = Inr C"
    unfolding C_def
  proof (rule add4_same)
    show "length A = length B" by (simp add: A_len B_len)
  next
    fix b assume "b < length A"
    then show "length (A ! b) = length (B ! b)" by (simp add: A_len B_len)
  next
    fix b h assume "b < length A" "h < length (A ! b)"
    then show "length (A ! b ! h) = length (B ! b ! h)" by (simp add: A_len B_len)
  next
    fix b h s assume "b < length A" "h < length (A ! b)" "s < length (A ! b ! h)"
    then have bhs: "b < length x" "h < length (x ! b)" "s < length (x ! b ! h)"
      by (simp_all add: A_len)
    show "length (A ! b ! h ! s) = length (B ! b ! h ! s)"
      using A_nth [OF bhs] B_nth [OF bhs] by simp
  qed
  have embed: "rotary_embed xs (unsqueeze1 cr) (unsqueeze1 sr) = Inr C"
    using m1 m2 add by (simp add: rotary_embed_def A_def B_def rh_def)
  have C_len: "length C = length x" "\<And>b. b < length x \<Longrightarrow> length (C ! b) = length (x ! b)"
    "\<And>b h. b < length x \<Longrightarrow> h < length (x ! b) \<Longrightarrow> length (C ! b ! h) = length (x ! b ! h)"
    by (simp_all add: C_def A_len)
  have C_nth: "C ! b ! h ! s = map2 (+) (A ! b ! h ! s) (B ! b ! h ! s)"
    if "b < length x" "h < length (x ! b)" "s < length (x ! b ! h)" for b h s
    using that by (simp add: C_def A_len)
  let ?pass = "slice_from d x"
  have cat: "cat_last C ?pass =
     Inr (map (\<lambda>b. map (\<lambda>h. map (\<lambda>s. C ! b ! h ! s @ ?pass ! b ! h ! s)
                               [0..<length (C ! b ! h)])
                     [0..<length (C ! b)])
              [0..<length C])"
  proof (rule cat_last_same)
    show "length C = length ?pass" by (simp add: C_len)
  next
    fix b assume "b < length C"
    then show "length (C ! b) = length (?pass ! b)" by (simp add: C_len)
  next
    fix b h assume "b < length C" "h < length (C ! b)"
    then show "length (C ! b ! h) = length (?pass ! b ! h)" by (simp add: C_len)
  qed
  have final: "map (\<lambda>b. map (\<lambda>h. map (\<lambda>s. C ! b ! h ! s @ ?pass ! b ! h ! s)
                               [0..<length (C ! b ! h)])
                     [0..<length (C ! b)])
              [0..<length C]
      = rotated_states cos_fn sin_fn table position_ids x"
    unfolding rotated_states_def
  proof (rule map_upt_cong)
    show "length C = length x" by (rule C_len)
  next
    fix b assume "b < length C"
    then have b: "b < length x" by (simp add: C_len)
    show "map (\<lambda>h. map (\<lambda>s. C ! b ! h ! s @ ?pass ! b ! h ! s) [0..<length (C ! b ! h)])
            [0..<length (C ! b)]
        = map (\<lambda>h. map (\<lambda>s. rotated_vec cos_fn sin_fn
                 (table ! (position_row position_ids b ! s)) (x ! b ! h ! s))
               [0..<length (x ! b ! h)]) [0..<length (x ! b)]"
    proof (rule map_upt_cong)
      show "length (C ! b) = length (x ! b)" by (rule C_len(2) [OF b])
    next
      fix h assume "h < length (C ! b)"
      then have h: "h < length (x ! b)" by (simp add: C_len b)
      show "map (\<lambda>s. C ! b ! h ! s @ ?pass ! b ! h ! s) [0..<length (C ! b ! h)]
          = map (\<lambda>s. rotated_vec cos_fn sin_fn
                 (table ! (position_row position_ids b ! s)) (x ! b ! h ! s))
               [0..<length (x ! b ! h)]"
      proof (rule map_upt_cong)
        show "length (C ! b ! h) = length (x ! b ! h)" by (rule C_len(3) [OF b h])
      next
        fix s assume "s < length (C ! b ! h)"
        then have s: "s < length (x ! b ! h)" by (simp add: C_len b h)
        show "C ! b ! h ! s @ ?pass ! b ! h ! s
            = rotated_vec cos_fn sin_fn (table ! (position_row position_ids b ! s)) (x ! b ! h ! s)"
          using C_nth [OF b h s] A_nth [OF b h s] B_nth [OF b h s] angles [OF b h s]
            nth_slice_from [OF b h s, of d]
          by (simp add: rotated_vec_def prow Let_def)
      qed
    qed
  qed
  from embed cat final show ?thesis
    by (simp add: xs_def cr_def sr_def d_def)
qed


text \<open>
  C4 (as amended). In \<open>ClvpSelfAttention.forward\<close>, \<open>apply_rotary_pos_emb\<close> treats the
  query, key and value states alike: on compatible shapes each of the three has the first
  \<open>rotary_emb_dim\<close> components \<open>x\<close> of every vector replaced by
  \<open>x * cos + rotate_half(x) * sin\<close>, with the cosine and sine of the angles at the token's
  position, and the remaining components passed through. The value vectors are rotated
  like the query and key vectors.
\<close>

theorem rotary_step_rotates_all:
  assumes q: "rotary_compatible table position_ids query_states"
    and k: "rotary_compatible table position_ids key_states"
    and v: "rotary_compatible table position_ids value_states"
  shows "ClvpSelfAttention_forward_rotary_step cos_fn sin_fn (Some table) (Some position_ids)
             query_states key_states value_states
         = Inr (rotated_states cos_fn sin_fn table position_ids query_states,
                rotated_states cos_fn sin_fn table position_ids key_states,
                rotated_states cos_fn sin_fn table position_ids value_states)"
proof -
  have pos: "\<forall>row \<in> set position_ids. \<forall>p \<in> set row. p < length table"
    using q by (simp add: rotary_compatible_def)
  then have gc: "gather_rows (map (map cos_fn) table) position_ids
      = Inr (map (map (\<lambda>p. map (map cos_fn) table ! p)) position_ids)"
    and gs: "gather_rows (map (map sin_fn) table) position_ids
      = Inr (map (map (\<lambda>p. map (map sin_fn) table ! p)) position_ids)"
    by (simp_all add: gather_rows_in_range)
  let ?d = "row_length table"
  let ?cos = "unsqueeze1 (map (map (\<lambda>p. map (map cos_fn) table ! p)) position_ids)"
  let ?sin = "unsqueeze1 (map (map (\<lambda>p. map (map sin_fn) table ! p)) position_ids)"
  have one: "\<exists>x_rot. rotary_embed (slice_to ?d x) ?cos ?sin = Inr x_rot
      \<and> cat_last x_rot (slice_from ?d x) = Inr (rotated_states cos_fn sin_fn table position_ids x)"
    if "rotary_compatible table position_ids x" for x
    using rotate_one [OF that, of cos_fn sin_fn]
    by (cases "rotary_embed (slice_to ?d x) ?cos ?sin") simp_all
  from one [OF q] obtain q_rot where
    q': "rotary_embed (slice_to ?d query_states) ?cos ?sin = Inr q_rot"
      "cat_last q_rot (slice_from ?d query_states)
        = Inr (rotated_states cos_fn sin_fn table position_ids query_states)"
    by (elim exE conjE)
  from one [OF k] obtain k_rot where
    k': "rotary_embed (slice_to ?d key_states) ?cos ?sin = Inr k_rot"
      "cat_last k_rot (slice_from ?d key_states)
        = Inr (rotated_states cos_fn sin_fn table position_ids key_states)"
    by (elim exE conjE)
  from one [OF v] obtain v_rot where
    v': "rotary_embed (slice_to ?d value_states) ?cos ?sin = Inr v_rot"
      "cat_last v_rot (slice_from ?d value_states)
        = Inr (rotated_states cos_fn sin_fn table position_ids value_states)"
    by (elim exE conjE)
  show ?thesis
    by (simp add: ClvpSelfAttention_forward_rotary_step_def apply_rotary_pos_emb_def Let_def gc gs q' k' v')
qed

lemma upt_2: "[0..<2] = [0, 1]"
  by (simp add: upt_rec)

theorem rotary_step_rotates_all_witness:
  "ClvpSelfAttention_forward_rotary_step cos sin (Some [[0, 0], [1, 1]]) (Some [[0, 1]])
       [[[[1, 0, 7], [1, 0, 7]]]] [[[[0, 1], [0, 1]]]] [[[[1, 0], [1, 0]]]]
     = Inr ([[[[1, 0, 7], [cos 1, sin 1, 7]]]],
            [[[[0, 1], [- sin 1, cos 1]]]],
            [[[[1, 0], [cos 1, sin 1]]]])"
proof -
  have c: "rotary_compatible [[0, 0], [1, 1]] [[0, 1]] [[[[1, 0, 7], [1, 0, 7]]]]"
    "rotary_compatible [[0, 0], [1, 1]] [[0, 1]] [[[[0, 1], [0, 1]]]]"
    "rotary_compatible [[0, 0], [1, 1]] [[0, 1]] [[[[1, 0], [1, 0]]]]"
    by (simp_all add: rotary_compatible_def row_length_def position_row_def)
  show ?thesis
    unfolding rotary_step_rotates_all [OF c]
    by (simp add: rotated_states_def rotated_vec_def rotate_half_vec_def position_row_def
        upt_2 Let_def)
qed

text \<open>
  C4 as stated fails: the value states do not pass through the rotary step unchanged. With
  the embedding of \<open>inv_freq = [1]\<close> for two positions, the value vector at position 1 is
  turned from \<open>(1, 0)\<close> to \<open>(cos 1, sin 1)\<close>.
\<close>

theorem value_states_rotated:
  "ClvpSelfAttention_forward_rotary_step cos sin (Some [[0, 0], [1, 1]]) (Some [[0, 1]])
       [[[[1, 0], [1, 0]]]] [[[[1, 0], [1, 0]]]] [[[[1, 0], [1, 0]]]]
     = Inr ([[[[1, 0], [cos 1, sin 1]]]], [[[[1, 0], [cos 1, sin 1]]]],
            [[[[1, 0], [cos 1, sin 1]]]])
   \<and> [[[[1, 0], [cos 1, sin 1]]]] \<noteq> [[[[1, 0], [1, (0::real)]]]]"
proof -
  have "(0::real) < sin 1"
    by (rule sin_gt_zero_02) simp_all
  then have ne: "[[[[1, 0], [cos 1, sin 1]]]] \<noteq> [[[[1, 0], [1, (0::real)]]]]"
    by simp
  have run: "ClvpSelfAttention_forward_rotary_step cos sin (Some [[0, 0], [1, 1]]) (Some [[0, 1]])
       [[[[1, 0], [1, 0]]]] [[[[1, 0], [1, 0]]]] [[[[1, 0], [1, 0]]]]
     = Inr ([[[[1, 0], [cos 1, sin 1]]]], [[[[1, 0], [cos 1, sin 1]]]],
            [[[[1, 0], [cos 1, sin 1]]]])"
    by (simp add: ClvpSelfAttention_forward_rotary_step_def apply_rotary_pos_emb_def gather_rows_def unsqueeze1_def
        rotary_embed_def mul4_def add4_def broadcast_def rotate_half_def rotate_half_vec_def
        cat_last_def zip_exact_def slice_to_def slice_from_def row_length_def Let_def)
  from run ne show ?thesis by (rule conjI)
qed

section \<open>Properties of the chroma features\<close>

lemma collect_Inr_all2:
  "collect rs = Inr xs \<Longrightarrow> list_all2 (\<lambda>r x. r = Inr x) rs xs"
  by (induction rs arbitrary: xs) (auto split: sum.splits)

lemma einsum_cf_ft_length:
  "einsum_cf_ft filters spec = Inr raw \<Longrightarrow> length raw = length filters"
  by (auto simp: einsum_cf_ft_def split: if_splits)

lemma length_normalize_inf [simp]: "length (normalize_inf chroma) = length chroma"
  by (simp add: normalize_inf_def)

lemma swapaxes_frame:
  "frame \<in> set (swapaxes chroma) \<Longrightarrow> length frame = length chroma \<and> frame \<noteq> []"
proof -
  assume "frame \<in> set (swapaxes chroma)"
  then obtain t where t: "t < row_length chroma" and f: "frame = map (\<lambda>bins. bins ! t) chroma"
    by (auto simp: swapaxes_def)
  from t have "chroma \<noteq> []" by (auto simp: row_length_def)
  with f show ?thesis by simp
qed

lemma normalized_chroma_frames:
  assumes "normalized_chroma self spectrogram waveform = Inr norm_chroma"
    and "frames \<in> set norm_chroma" and "frame \<in> set frames"
  shows "length frame = length (chroma_filters self)" and "frame \<noteq> []"
proof -
  let ?spec = "spectrogram (pad_waveform (n_fft self) waveform)"
  from assms(1) obtain raw_chroma where
    raw: "collect (map (einsum_cf_ft (chroma_filters self)) ?spec) = Inr raw_chroma"
    and norm: "norm_chroma = map (\<lambda>chroma. swapaxes (normalize_inf chroma)) raw_chroma"
    by (auto simp: normalized_chroma_def Let_def split: sum.splits)
  from assms(2) norm obtain chroma where
    chroma: "chroma \<in> set raw_chroma" "frames = swapaxes (normalize_inf chroma)"
    by auto
  from chroma(1) obtain i where i: "i < length raw_chroma" "raw_chroma ! i = chroma"
    by (auto simp: in_set_conv_nth)
  from collect_Inr_all2 [OF raw] i(1) have
    "map (einsum_cf_ft (chroma_filters self)) ?spec ! i = Inr (raw_chroma ! i)"
    and "i < length (map (einsum_cf_ft (chroma_filters self)) ?spec)"
    by (simp_all add: list_all2_conv_all_nth)
  with i(2) have "einsum_cf_ft (chroma_filters self) (?spec ! i) = Inr chroma"
    by simp
  then have len: "length chroma = length (chroma_filters self)"
    by (rule einsum_cf_ft_length)
  from assms(3) chroma(2) have "length frame = length (normalize_inf chroma) \<and> frame \<noteq> []"
    by (simp add: swapaxes_frame)
  with len show "length frame = length (chroma_filters self)" and "frame \<noteq> []"
    by simp_all
qed

lemma argmax_from_bound:
  "best_index < i \<Longrightarrow> argmax_from best best_index i xs < i + length xs"
proof (induction xs arbitrary: best best_index i)
  case Nil
  then show ?case by simp
next
  case (Cons x xs)
  have a: "argmax_from x i (Suc i) xs < Suc i + length xs"
    by (rule Cons.IH) simp
  have b: "argmax_from best best_index (Suc i) xs < Suc i + length xs"
    by (rule Cons.IH) (use Cons.prems in simp)
  from a b show ?case by simp
qed

lemma argmax_less: "xs \<noteq> [] \<Longrightarrow> argmax xs < length xs"
proof (cases xs)
  case Nil
  assume "xs \<noteq> []"
  with Nil show ?thesis by simp
next
  case (Cons x rest)
  have "argmax_from x 0 1 rest < 1 + length rest"
    by (rule argmax_from_bound) simp
  with Cons show ?thesis by (simp add: argmax_def)
qed

lemma length_one_hot_frame [simp]: "length (one_hot_frame frame) = length frame"
  by (simp add: one_hot_frame_def Let_def)

lemma one_hot_frame_nth:
  "c < length frame \<Longrightarrow> one_hot_frame frame ! c = (if c = argmax frame then 1 else 0)"
  by (simp add: one_hot_frame_def Let_def nth_list_update)

text \<open>The index \<open>argmax\<close> returns is the first position of the greatest entry.\<close>

lemma argmax_from_greatest:
  assumes "length pre = i" and "best_index < i" and "pre ! best_index = best"
    and "\<forall>x \<in> set pre. x \<le> best" and "\<forall>j < best_index. pre ! j < best"
  shows "(\<forall>x \<in> set (pre @ xs). x \<le> (pre @ xs) ! argmax_from best best_index i xs)
       \<and> (\<forall>j < argmax_from best best_index i xs.
             (pre @ xs) ! j < (pre @ xs) ! argmax_from best best_index i xs)"
  using assms
proof (induction xs arbitrary: pre i best best_index)
  case Nil
  then show ?case by simp
next
  case (Cons x xs)
  show ?case
  proof (cases "best < x")
    case True
    have "(\<forall>y \<in> set ((pre @ [x]) @ xs). y \<le> ((pre @ [x]) @ xs) ! argmax_from x i (Suc i) xs)
       \<and> (\<forall>j < argmax_from x i (Suc i) xs.
             ((pre @ [x]) @ xs) ! j < ((pre @ [x]) @ xs) ! argmax_from x i (Suc i) xs)"
    proof (rule Cons.IH)
      show "length (pre @ [x]) = Suc i" using Cons.prems(1) by simp
      show "i < Suc i" by simp
      show "(pre @ [x]) ! i = x" using Cons.prems(1) by (simp add: nth_append)
      show "\<forall>y \<in> set (pre @ [x]). y \<le> x" using Cons.prems(4) True by fastforce
      show "\<forall>j < i. (pre @ [x]) ! j < x"
      proof (intro allI impI)
        fix j assume "j < i"
        then have "(pre @ [x]) ! j = pre ! j" "pre ! j \<in> set pre"
          using Cons.prems(1) by (simp_all add: nth_append)
        with Cons.prems(4) True show "(pre @ [x]) ! j < x" by fastforce
      qed
    qed
    with True show ?thesis by simp
  next
    case False
    have "(\<forall>y \<in> set ((pre @ [x]) @ xs).
              y \<le> ((pre @ [x]) @ xs) ! argmax_from best best_index (Suc i) xs)
       \<and> (\<forall>j < argmax_from best best_index (Suc i) xs.
             ((pre @ [x]) @ xs) ! j < ((pre @ [x]) @ xs) ! argmax_from best best_index (Suc i) xs)"
    proof (rule Cons.IH)
      show "length (pre @ [x]) = Suc i" using Cons.prems(1) by simp
      show "best_index < Suc i" using Cons.prems(2) by simp
      show "(pre @ [x]) ! best_index = best"
        using Cons.prems(1,2,3) by (simp add: nth_append)
      show "\<forall>y \<in> set (pre @ [x]). y \<le> best" using Cons.prems(4) False by auto
      show "\<forall>j < best_index. (pre @ [x]) ! j < best"
        using Cons.prems(1,2,5) by (simp add: nth_append)
    qed
    with False show ?thesis by simp
  qed
qed

lemma argmax_greatest:
  assumes "xs \<noteq> []"
  shows "\<forall>x \<in> set xs. x \<le> xs ! argmax xs" and "\<forall>j < argmax xs. xs ! j < xs ! argmax xs"
proof -
  from assms obtain x rest where xs: "xs = x # rest" by (cases xs) auto
  have "(\<forall>y \<in> set ([x] @ rest). y \<le> ([x] @ rest) ! argmax_from x 0 1 rest)
       \<and> (\<forall>j < argmax_from x 0 1 rest.
             ([x] @ rest) ! j < ([x] @ rest) ! argmax_from x 0 1 rest)"
    by (rule argmax_from_greatest) simp_all
  with xs show "\<forall>x \<in> set xs. x \<le> xs ! argmax xs"
    and "\<forall>j < argmax xs. xs ! j < xs ! argmax xs"
    by (simp_all add: argmax_def)
qed

text \<open>
  C7. Under the default configuration (\<open>feature_size = 12\<close>, \<open>num_chroma = 12\<close>), with a
  chroma filter bank of 12 rows for the default arguments, every frame of the features
  that \<open>_ms_extract_fbank_features\<close> returns has exactly 12 entries in the chroma (last)
  dimension, for every waveform and whatever the spectrogram is. (\<open>__call__\<close> stores this
  value as \<open>input_features\<close>.)
\<close>

theorem chroma_bins_default:
  assumes bank: "length (chroma_filter_bank 32000 16384 0 12) = 12"
    and run: "ms_extract_fbank_features (default_feature_extractor chroma_filter_bank)
                spectrogram waveform = Inr input_features"
  shows "\<forall>frames \<in> set input_features. \<forall>frame \<in> set frames. length frame = 12"
proof (intro ballI)
  fix frames frame
  assume fs: "frames \<in> set input_features" and f: "frame \<in> set frames"
  let ?self = "default_feature_extractor chroma_filter_bank"
  from run obtain norm_chroma where
    norm: "normalized_chroma ?self spectrogram waveform = Inr norm_chroma"
    and feat: "input_features = map (map one_hot_frame) norm_chroma"
    by (auto simp: ms_extract_fbank_features_def split: sum.splits)
  from fs feat obtain norm_frames where
    nfs: "norm_frames \<in> set norm_chroma" "frames = map one_hot_frame norm_frames"
    by auto
  from f nfs(2) obtain norm_frame where
    nf: "norm_frame \<in> set norm_frames" "frame = one_hot_frame norm_frame"
    by auto
  have "length norm_frame = length (chroma_filters ?self)"
    by (rule normalized_chroma_frames(1) [OF norm nfs(1) nf(1)])
  also have "\<dots> = 12"
    using bank
    by (simp add: default_feature_extractor_def MusicgenMelodyFeatureExtractor_init_def)
  finally show "length frame = 12"
    using nf(2) by simp
qed

theorem chroma_bins_default_witness:
  "ms_extract_fbank_features
       (default_feature_extractor (\<lambda>sr n tuning c. map (\<lambda>i. [real i, 1]) [0..<c]))
       (\<lambda>w. [[[1, 2, 3], [4, 0, - 6]]]) [[1, 2]]
     = Inr [[[0, 0, 0, 0, 0, 0, 0, 0, 0, 0, 0, 1],
             [0, 0, 0, 0, 0, 0, 0, 0, 0, 0, 0, 1],
             [0, 0, 0, 0, 0, 0, 0, 0, 0, 0, 0, 1]]]
   \<and> map (map length) [[[0, 0, 0, 0, 0, 0, 0, 0, 0, 0, 0, 1],
             [0, 0, 0, 0, 0, 0, 0, 0, 0, 0, 0, 1],
             [0, 0, 0, 0, 0, 0, 0, 0, 0, 0, 0, 1 :: real]]] = [[12, 12, 12]]"
proof -
  let ?bank = "\<lambda>(sr :: nat) (n :: nat) (tuning :: real) c. map (\<lambda>i. [real i, 1]) [0..<c]"
  let ?F = "[[[0, 0, 0, 0, 0, 0, 0, 0, 0, 0, 0, 1],
             [0, 0, 0, 0, 0, 0, 0, 0, 0, 0, 0, 1],
             [0, 0, 0, 0, 0, 0, 0, 0, 0, 0, 0, 1 :: real]]]"
  have bank: "length (?bank 32000 16384 0 12) = 12" by simp
  have inner: "(case collect (map (einsum_cf_ft (map (\<lambda>i. [real i, 1]) [0..<12]))
                    [[[1, 2, 3], [4, 0, - 6]]]) of
           Inl e \<Rightarrow> Inl e
         | Inr raw_chroma \<Rightarrow>
             (case Inr (map (\<lambda>chroma. swapaxes (normalize_inf chroma)) raw_chroma) of
                Inl e \<Rightarrow> Inl e
              | Inr norm_chroma \<Rightarrow> Inr (map (map one_hot_frame) norm_chroma))) = Inr ?F"
    by code_simp
  have run: "ms_extract_fbank_features (default_feature_extractor ?bank)
       (\<lambda>w. [[[1, 2, 3], [4, 0, - 6]]]) [[1, 2]] = Inr ?F"
    unfolding ms_extract_fbank_features_def normalized_chroma_def Let_def
      default_feature_extractor_def MusicgenMelodyFeatureExtractor_init_def
      MusicgenMelodyFeatureExtractor.simps
    using inner by (simp only: sum.case_distrib [of "case_sum Inl (\<lambda>n. Inr (map (map one_hot_frame) n))"] sum.case)
  from chroma_bins_default [OF bank run] have "map (map length) ?F = [[12, 12, 12]]"
    by simp
  with run show ?thesis by (rule conjI)
qed

text \<open>
  C10. For every waveform batch, the tensor that \<open>_ms_extract_fbank_features\<close> returns
  has the shape of the normalised chroma, and each of its (batch, time) frames is one-hot
  along the chroma dimension: there is one position of the frame, the argmax of the
  normalised chroma frame, where the normalised chroma is at least as large as at every
  position of the frame and strictly larger than at every earlier position; the returned
  entry there is 1 and every other returned entry is 0.
\<close>

theorem chroma_one_hot:
  assumes run: "ms_extract_fbank_features self spectrogram waveform = Inr input_features"
  shows "\<exists>norm_chroma.
           normalized_chroma self spectrogram waveform = Inr norm_chroma
         \<and> length input_features = length norm_chroma
         \<and> (\<forall>b < length norm_chroma.
               length (input_features ! b) = length (norm_chroma ! b)
             \<and> (\<forall>t < length (norm_chroma ! b).
                   length (input_features ! b ! t) = length (norm_chroma ! b ! t)
                 \<and> argmax (norm_chroma ! b ! t) < length (norm_chroma ! b ! t)
                 \<and> (\<forall>c < length (norm_chroma ! b ! t).
                       norm_chroma ! b ! t ! c
                         \<le> norm_chroma ! b ! t ! argmax (norm_chroma ! b ! t))
                 \<and> (\<forall>c < argmax (norm_chroma ! b ! t).
                       norm_chroma ! b ! t ! c
                         < norm_chroma ! b ! t ! argmax (norm_chroma ! b ! t))
                 \<and> (\<forall>c < length (norm_chroma ! b ! t).
                       input_features ! b ! t ! c
                         = (if c = argmax (norm_chroma ! b ! t) then 1 else 0))))"
proof -
  from run obtain norm_chroma where
    norm: "normalized_chroma self spectrogram waveform = Inr norm_chroma"
    and feat: "input_features = map (map one_hot_frame) norm_chroma"
    by (auto simp: ms_extract_fbank_features_def split: sum.splits)
  have frames: "length (input_features ! b) = length (norm_chroma ! b)
             \<and> (\<forall>t < length (norm_chroma ! b).
                   length (input_features ! b ! t) = length (norm_chroma ! b ! t)
                 \<and> argmax (norm_chroma ! b ! t) < length (norm_chroma ! b ! t)
                 \<and> (\<forall>c < length (norm_chroma ! b ! t).
                       norm_chroma ! b ! t ! c
                         \<le> norm_chroma ! b ! t ! argmax (norm_chroma ! b ! t))
                 \<and> (\<forall>c < argmax (norm_chroma ! b ! t).
                       norm_chroma ! b ! t ! c
                         < norm_chroma ! b ! t ! argmax (norm_chroma ! b ! t))
                 \<and> (\<forall>c < length (norm_chroma ! b ! t).
                       input_features ! b ! t ! c
                         = (if c = argmax (norm_chroma ! b ! t) then 1 else 0)))"
    if b: "b < length norm_chroma" for b
  proof (intro conjI allI impI)
    show "length (input_features ! b) = length (norm_chroma ! b)"
      using b by (simp add: feat)
  next
    fix t assume t: "t < length (norm_chroma ! b)"
    show "length (input_features ! b ! t) = length (norm_chroma ! b ! t)"
      using b t by (simp add: feat)
    have "norm_chroma ! b \<in> set norm_chroma" "norm_chroma ! b ! t \<in> set (norm_chroma ! b)"
      using b t by simp_all
    then have "norm_chroma ! b ! t \<noteq> []"
      by (rule normalized_chroma_frames(2) [OF norm])
    then show "argmax (norm_chroma ! b ! t) < length (norm_chroma ! b ! t)"
      by (rule argmax_less)
  next
    fix t c assume t: "t < length (norm_chroma ! b)" and c: "c < length (norm_chroma ! b ! t)"
    have "norm_chroma ! b \<in> set norm_chroma" "norm_chroma ! b ! t \<in> set (norm_chroma ! b)"
      using b t by simp_all
    then have "norm_chroma ! b ! t \<noteq> []"
      by (rule normalized_chroma_frames(2) [OF norm])
    from argmax_greatest(1) [OF this] c
    show "norm_chroma ! b ! t ! c \<le> norm_chroma ! b ! t ! argmax (norm_chroma ! b ! t)"
      by simp
  next
    fix t c assume t: "t < length (norm_chroma ! b)" and c: "c < argmax (norm_chroma ! b ! t)"
    have "norm_chroma ! b \<in> set norm_chroma" "norm_chroma ! b ! t \<in> set (norm_chroma ! b)"
      using b t by simp_all
    then have "norm_chroma ! b ! t \<noteq> []"
      by (rule normalized_chroma_frames(2) [OF norm])
    from argmax_greatest(2) [OF this] c
    show "norm_chroma ! b ! t ! c < norm_chroma ! b ! t ! argmax (norm_chroma ! b ! t)"
      by simp
  next
    fix t c assume t: "t < length (norm_chroma ! b)" and c: "c < length (norm_chroma ! b ! t)"
    have "input_features ! b ! t = one_hot_frame (norm_chroma ! b ! t)"
      using b t by (simp add: feat)
    with c show "input_features ! b ! t ! c = (if c = argmax (norm_chroma ! b ! t) then 1 else 0)"
      by (simp add: one_hot_frame_nth)
  qed
  have len: "length input_features = length norm_chroma"
    by (simp add: feat)
  from norm len frames show ?thesis
    by (intro exI [of _ norm_chroma] conjI allI impI) blast+
qed

text \<open>
  The witness has three chroma bins and frames whose greatest entry is at the first bin,
  at the middle bin, tied between the first and the last bin, and tied between all
  three: the 1 is at the first of the greatest entries.
\<close>

theorem chroma_one_hot_witness:
  "ms_extract_fbank_features
       (MusicgenMelodyFeatureExtractor_init (\<lambda>sr n tuning c. [[1, 0], [0, 1], [1, 0]])
          3 8 2 1 4 3 0 False [3, 2])
       (map (\<lambda>w. [[w ! 1, w ! 2, 2], [w ! 2, w ! 1, 2]])) [[3, 1], [1, 3]]
     = Inr [[[1, 0, 0], [0, 1, 0], [1, 0, 0]], [[0, 1, 0], [1, 0, 0], [1, 0, 0]]]
   \<and> normalized_chroma
       (MusicgenMelodyFeatureExtractor_init (\<lambda>sr n tuning c. [[1, 0], [0, 1], [1, 0]])
          3 8 2 1 4 3 0 False [3, 2])
       (map (\<lambda>w. [[w ! 1, w ! 2, 2], [w ! 2, w ! 1, 2]])) [[3, 1], [1, 3]]
     = Inr [[[1, 1 / 3, 1], [1 / 3, 1, 1 / 3], [1, 1, 1]],
            [[1 / 3, 1, 1 / 3], [1, 1 / 3, 1], [1, 1, 1]]]
   \<and> map (map argmax) [[[1, 1 / 3, 1], [1 / 3, 1, 1 / 3], [1, 1, 1]],
            [[1 / 3, 1, 1 / 3], [1, 1 / 3, 1], [1, 1, 1]]] = [[0, 1, 0], [1, 0, 0]]
   \<and> [[[1, 0, 0], [0, 1, 0], [1, 0, 0]], [[0, 1, 0], [1, 0, 0], [1, 0, 0 :: real]]] ! 0 ! 1 ! 1
       = (if (1 :: nat) = argmax ([[[1, 1 / 3, 1], [1 / 3, 1, 1 / 3], [1, 1, 1]],
            [[1 / 3, 1, 1 / 3], [1, 1 / 3, 1], [1, 1, 1]]] ! 0 ! 1) then 1 else 0)"
proof -
  let ?self = "MusicgenMelodyFeatureExtractor_init
     (\<lambda>(sr :: nat) (n :: nat) (tuning :: real) (c :: nat). [[1, 0], [0, 1], [1, 0 :: real]])
     3 8 2 1 4 3 0 False [3, 2]"
  let ?sp = "map (\<lambda>w :: real list. [[w ! 1, w ! 2, 2], [w ! 2, w ! 1, 2]])"
  let ?N = "[[[1, 1 / 3, 1], [1 / 3, 1, 1 / 3], [1, 1, 1]],
            [[1 / 3, 1, 1 / 3], [1, 1 / 3, 1], [1, 1, 1 :: real]]]"
  let ?F = "[[[1, 0, 0], [0, 1, 0], [1, 0, 0]], [[0, 1, 0], [1, 0, 0], [1, 0, 0 :: real]]]"
  have run: "ms_extract_fbank_features ?self ?sp [[3, 1], [1, 3]] = Inr ?F"
    by code_simp
  have norm: "normalized_chroma ?self ?sp [[3, 1], [1, 3]] = Inr ?N"
    by code_simp
  have am: "map (map argmax) ?N = [[0, 1, 0], [1, 0, 0]]"
    by code_simp
  from chroma_one_hot [OF run] norm have entries:
    "\<forall>b < length ?N. \<forall>t < length (?N ! b). \<forall>c < length (?N ! b ! t).
       ?F ! b ! t ! c = (if c = argmax (?N ! b ! t) then 1 else 0)"
    by auto
  have "(0 :: nat) < length ?N" "(1 :: nat) < length (?N ! 0)" "(1 :: nat) < length (?N ! 0 ! 1)"
    by simp_all
  with entries have "?F ! 0 ! 1 ! 1 = (if (1 :: nat) = argmax (?N ! 0 ! 1) then 1 else 0)"
    by blast
  with run norm am show ?thesis by (intro conjI)
qed

end
